theory Spec2Isabelle
  imports Complex_Main "HOL-Library.Log_Nat"
begin

section \<open>Numbers and errors\<close>

text \<open>
  The source computes with Python numbers. Its annotations say \<open>float\<close>, and Python
  rounds the result of every operation on floats to an IEEE double; on \<open>int\<close> and
  \<open>Fraction\<close> arguments the same code computes exactly. Numbers are modelled as
  \<^typ>\<open>real\<close>, and the model comes in two layers.

  The definitions without a suffix compute in exact arithmetic. They are what the code
  does on exact numbers and an idealisation of what it does on floats; they carry the
  results whose content does not depend on rounding.

  The definitions with the suffix \<open>_fl\<close> take the rounding \<open>fl\<close> of the arithmetic as a
  parameter and apply it to the result of every addition, subtraction, multiplication
  and division of the source, in the order the source evaluates them: \<open>fl\<close> is the
  identity for exact numbers and \<open>binary64\<close> for floats. They carry the results that
  rounding decides.

  Every \<open>raise\<close> of the source is a value of \<open>error\<close>, returned as \<open>Inl\<close>.
\<close>

datatype error = KeyError | ZeroDivisionError | AssertionError | FPDFPageFormatException

subsection \<open>Rounding to a double\<close>

text \<open>Python's \<open>round\<close> to an integer: to the nearest, a tie to the even one.\<close>

definition py_round :: "real \<Rightarrow> int" where
  "py_round z =
     (let n = \<lfloor>z\<rfloor>; d = z - real_of_int n
      in if d < 1 / 2 then n
         else if 1 / 2 < d then n + 1
         else if even n then n else n + 1)"

text \<open>
  \<open>expo2 a\<close> is the binary exponent of a positive number: the \<open>e\<close> with
  \<open>2^e \<le> a < 2^(e+1)\<close>, found from the bit length of the integer part of \<open>a\<close>, or of
  \<open>1 / a\<close> when \<open>a\<close> is below 1.
\<close>

definition expo2 :: "real \<Rightarrow> int" where
  "expo2 a =
     (if 1 \<le> a then bitlen \<lfloor>a\<rfloor> - 1
      else (let j = bitlen \<lfloor>1 / a\<rfloor> - 1 in if a * 2 ^ nat j = 1 then - j else - j - 1))"

text \<open>
  \<open>binary64 z\<close> is the double nearest to \<open>z\<close>, a tie going to the even significand: \<open>z\<close>
  is rounded to a multiple of the unit in the last place, which is \<open>2^(e - 52)\<close> for a
  number of exponent \<open>e\<close> and \<open>2^(-1074)\<close> in the subnormal range. A result beyond the
  largest double, which Python gives as \<open>inf\<close>, is not modelled: the numbers in the
  results below are far inside the range.
\<close>

definition binary64 :: "real \<Rightarrow> real" where
  "binary64 z =
     (if z = 0 then 0
      else (let e = expo2 \<bar>z\<bar>; u = 2 powi (max (e - 52) (- 1074))
            in real_of_int (py_round (z / u)) * u))"

section \<open>Geometry: \<open>SPoint\<close> and \<open>SRect\<close>\<close>

record SPoint =
  x :: real
  y :: real

text \<open>\<open>SPoint.Shift\<close>: \<open>self.x += dX; self.y += dY\<close>.\<close>

definition SPoint_Shift :: "SPoint \<Rightarrow> real \<Rightarrow> real \<Rightarrow> SPoint" where
  "SPoint_Shift pos dX dY = pos\<lparr>x := x pos + dX, y := y pos + dY\<rparr>"

text \<open>
  An \<open>SRect\<close> owns two points of its own (\<open>__init__\<close> builds both, \<open>Copy\<close> is a deep
  copy), so no two rectangles share a corner and a method that mutates \<open>self\<close> and
  returns it is the function from the old rectangle to the new one.
\<close>

record SRect =
  posMin :: SPoint
  posMax :: SPoint

definition SRect_init :: "real \<Rightarrow> real \<Rightarrow> real \<Rightarrow> real \<Rightarrow> SRect" where
  "SRect_init x0 y0 dX dY =
     \<lparr>posMin = \<lparr>x = x0, y = y0\<rparr>, posMax = \<lparr>x = x0 + dX, y = y0 + dY\<rparr>\<rparr>"

text \<open>The properties \<open>xMin\<close>, \<open>yMin\<close>, \<open>xMax\<close>, \<open>yMax\<close> and their setters.\<close>

definition xMin :: "SRect \<Rightarrow> real" where "xMin rect = x (posMin rect)"
definition yMin :: "SRect \<Rightarrow> real" where "yMin rect = y (posMin rect)"
definition xMax :: "SRect \<Rightarrow> real" where "xMax rect = x (posMax rect)"
definition yMax :: "SRect \<Rightarrow> real" where "yMax rect = y (posMax rect)"

definition xMin_set :: "SRect \<Rightarrow> real \<Rightarrow> SRect" where
  "xMin_set rect xNew = rect\<lparr>posMin := (posMin rect)\<lparr>x := xNew\<rparr>\<rparr>"
definition yMin_set :: "SRect \<Rightarrow> real \<Rightarrow> SRect" where
  "yMin_set rect yNew = rect\<lparr>posMin := (posMin rect)\<lparr>y := yNew\<rparr>\<rparr>"
definition xMax_set :: "SRect \<Rightarrow> real \<Rightarrow> SRect" where
  "xMax_set rect xNew = rect\<lparr>posMax := (posMax rect)\<lparr>x := xNew\<rparr>\<rparr>"
definition yMax_set :: "SRect \<Rightarrow> real \<Rightarrow> SRect" where
  "yMax_set rect yNew = rect\<lparr>posMax := (posMax rect)\<lparr>y := yNew\<rparr>\<rparr>"

text \<open>\<open>SRect.Shift\<close>, \<open>Inset\<close>, \<open>Outset\<close>, \<open>Stretch\<close>.\<close>

definition SRect_Shift :: "SRect \<Rightarrow> real \<Rightarrow> real \<Rightarrow> SRect" where
  "SRect_Shift rect dX dY =
     \<lparr>posMin = SPoint_Shift (posMin rect) dX dY, posMax = SPoint_Shift (posMax rect) dX dY\<rparr>"

definition Inset :: "SRect \<Rightarrow> real \<Rightarrow> SRect" where
  "Inset rect dS =
     \<lparr>posMin = SPoint_Shift (posMin rect) dS dS, posMax = SPoint_Shift (posMax rect) (- dS) (- dS)\<rparr>"

definition Outset :: "SRect \<Rightarrow> real \<Rightarrow> SRect" where
  "Outset rect dS = Inset rect (- dS)"

definition Stretch :: "SRect \<Rightarrow> real \<Rightarrow> real \<Rightarrow> real \<Rightarrow> real \<Rightarrow> SRect" where
  "Stretch rect dXLeft dYTop dXRight dYBottom =
     \<lparr>posMin = SPoint_Shift (posMin rect) dXLeft dYTop,
      posMax = SPoint_Shift (posMax rect) dXRight dYBottom\<rparr>"

text \<open>
  The properties \<open>x\<close>, \<open>y\<close>, \<open>dX\<close>, \<open>dY\<close> of a rectangle. The getters read the corners;
  the setters of \<open>x\<close> and \<open>y\<close> go through \<open>Shift\<close>, those of \<open>dX\<close> and \<open>dY\<close> write
  \<open>posMax\<close> only.
\<close>

definition SRect_x :: "SRect \<Rightarrow> real" where "SRect_x rect = x (posMin rect)"
definition SRect_y :: "SRect \<Rightarrow> real" where "SRect_y rect = y (posMin rect)"
definition SRect_dX :: "SRect \<Rightarrow> real" where "SRect_dX rect = x (posMax rect) - x (posMin rect)"
definition SRect_dY :: "SRect \<Rightarrow> real" where "SRect_dY rect = y (posMax rect) - y (posMin rect)"

definition SRect_x_set :: "SRect \<Rightarrow> real \<Rightarrow> SRect" where
  "SRect_x_set rect xNew = (let dX = xNew - x (posMin rect) in SRect_Shift rect dX 0)"

definition SRect_y_set :: "SRect \<Rightarrow> real \<Rightarrow> SRect" where
  "SRect_y_set rect yNew = (let dY = yNew - y (posMin rect) in SRect_Shift rect 0 dY)"

definition SRect_dX_set :: "SRect \<Rightarrow> real \<Rightarrow> SRect" where
  "SRect_dX_set rect dXNew = rect\<lparr>posMax := (posMax rect)\<lparr>x := x (posMin rect) + dXNew\<rparr>\<rparr>"

definition SRect_dY_set :: "SRect \<Rightarrow> real \<Rightarrow> SRect" where
  "SRect_dY_set rect dYNew = rect\<lparr>posMax := (posMax rect)\<lparr>y := y (posMin rect) + dYNew\<rparr>\<rparr>"

text \<open>\<open>Set\<close> assigns the properties that are not \<open>None\<close>, in the order x, y, dX, dY.\<close>

definition SRect_Set ::
  "SRect \<Rightarrow> real option \<Rightarrow> real option \<Rightarrow> real option \<Rightarrow> real option \<Rightarrow> SRect" where
  "SRect_Set rect xo yo dXo dYo =
     (let r1 = (case xo of None \<Rightarrow> rect | Some v \<Rightarrow> SRect_x_set rect v);
          r2 = (case yo of None \<Rightarrow> r1 | Some v \<Rightarrow> SRect_y_set r1 v);
          r3 = (case dXo of None \<Rightarrow> r2 | Some v \<Rightarrow> SRect_dX_set r2 v);
          r4 = (case dYo of None \<Rightarrow> r3 | Some v \<Rightarrow> SRect_dY_set r3 v)
      in r4)"

text \<open>\<open>Copy\<close>: a deep copy, then \<open>Set\<close> on the copy. A value is its own deep copy.\<close>

definition Copy ::
  "SRect \<Rightarrow> real option \<Rightarrow> real option \<Rightarrow> real option \<Rightarrow> real option \<Rightarrow> SRect" where
  "Copy rect xo yo dXo dYo = (let rectNew = rect in SRect_Set rectNew xo yo dXo dYo)"

subsection \<open>\<open>RectBoundingBox\<close>\<close>

text \<open>
  The body of the \<open>for\<close> loop: four assignments to \<open>rectReturn\<close>, each reading the
  rectangle as the previous one left it.
\<close>

definition bb_step :: "SRect \<Rightarrow> SRect \<Rightarrow> SRect" where
  "bb_step rectReturn rectNext =
     (let r1 = xMin_set rectReturn (min (xMin rectReturn) (xMin rectNext));
          r2 = yMin_set r1 (min (yMin r1) (yMin rectNext));
          r3 = xMax_set r2 (max (xMax r2) (xMax rectNext));
          r4 = yMax_set r3 (max (yMax r3) (yMax rectNext))
      in r4)"

fun bb_loop :: "SRect \<Rightarrow> SRect list \<Rightarrow> SRect" where
  "bb_loop rectReturn [] = rectReturn"
| "bb_loop rectReturn (rectNext # iterRect) = bb_loop (bb_step rectReturn rectNext) iterRect"

text \<open>
  \<open>iRect\<close> is a sequence (a list): \<open>not iRect\<close> is true exactly for the empty one.
\<close>

fun RectBoundingBox :: "SRect list \<Rightarrow> SRect" where
  "RectBoundingBox [] = SRect_init 0 0 0 0"
| "RectBoundingBox (rectFirst # iterRect) =
     bb_loop (Copy rectFirst None None None None) iterRect"

subsection \<open>Geometry in rounded arithmetic\<close>

text \<open>
  The same operations with the rounding \<open>fl\<close> applied to every sum and difference.
  \<open>SRect.__init__\<close> stores \<open>x\<close> and \<open>y\<close> as given and the sums \<open>x + dX\<close>, \<open>y + dY\<close>; the
  getters of \<open>dX\<close> and \<open>dY\<close> subtract; the negations in \<open>Inset\<close> and \<open>Outset\<close> are exact.
\<close>

definition SPoint_Shift_fl :: "(real \<Rightarrow> real) \<Rightarrow> SPoint \<Rightarrow> real \<Rightarrow> real \<Rightarrow> SPoint" where
  "SPoint_Shift_fl fl pos dX dY = pos\<lparr>x := fl (x pos + dX), y := fl (y pos + dY)\<rparr>"

definition SRect_init_fl :: "(real \<Rightarrow> real) \<Rightarrow> real \<Rightarrow> real \<Rightarrow> real \<Rightarrow> real \<Rightarrow> SRect" where
  "SRect_init_fl fl x0 y0 dX dY =
     \<lparr>posMin = \<lparr>x = x0, y = y0\<rparr>, posMax = \<lparr>x = fl (x0 + dX), y = fl (y0 + dY)\<rparr>\<rparr>"

definition SRect_Shift_fl :: "(real \<Rightarrow> real) \<Rightarrow> SRect \<Rightarrow> real \<Rightarrow> real \<Rightarrow> SRect" where
  "SRect_Shift_fl fl rect dX dY =
     \<lparr>posMin = SPoint_Shift_fl fl (posMin rect) dX dY,
      posMax = SPoint_Shift_fl fl (posMax rect) dX dY\<rparr>"

definition Inset_fl :: "(real \<Rightarrow> real) \<Rightarrow> SRect \<Rightarrow> real \<Rightarrow> SRect" where
  "Inset_fl fl rect dS =
     \<lparr>posMin = SPoint_Shift_fl fl (posMin rect) dS dS,
      posMax = SPoint_Shift_fl fl (posMax rect) (- dS) (- dS)\<rparr>"

definition Outset_fl :: "(real \<Rightarrow> real) \<Rightarrow> SRect \<Rightarrow> real \<Rightarrow> SRect" where
  "Outset_fl fl rect dS = Inset_fl fl rect (- dS)"

definition SRect_dX_fl :: "(real \<Rightarrow> real) \<Rightarrow> SRect \<Rightarrow> real" where
  "SRect_dX_fl fl rect = fl (x (posMax rect) - x (posMin rect))"

definition SRect_dY_fl :: "(real \<Rightarrow> real) \<Rightarrow> SRect \<Rightarrow> real" where
  "SRect_dY_fl fl rect = fl (y (posMax rect) - y (posMin rect))"

definition SRect_x_set_fl :: "(real \<Rightarrow> real) \<Rightarrow> SRect \<Rightarrow> real \<Rightarrow> SRect" where
  "SRect_x_set_fl fl rect xNew =
     (let dX = fl (xNew - x (posMin rect)) in SRect_Shift_fl fl rect dX 0)"

definition SRect_y_set_fl :: "(real \<Rightarrow> real) \<Rightarrow> SRect \<Rightarrow> real \<Rightarrow> SRect" where
  "SRect_y_set_fl fl rect yNew =
     (let dY = fl (yNew - y (posMin rect)) in SRect_Shift_fl fl rect 0 dY)"

definition SRect_dX_set_fl :: "(real \<Rightarrow> real) \<Rightarrow> SRect \<Rightarrow> real \<Rightarrow> SRect" where
  "SRect_dX_set_fl fl rect dXNew =
     rect\<lparr>posMax := (posMax rect)\<lparr>x := fl (x (posMin rect) + dXNew)\<rparr>\<rparr>"

definition SRect_dY_set_fl :: "(real \<Rightarrow> real) \<Rightarrow> SRect \<Rightarrow> real \<Rightarrow> SRect" where
  "SRect_dY_set_fl fl rect dYNew =
     rect\<lparr>posMax := (posMax rect)\<lparr>y := fl (y (posMin rect) + dYNew)\<rparr>\<rparr>"

section \<open>Strings\<close>

text \<open>
  Names (font families, styles, orientations, page formats) are \<^typ>\<open>string\<close>s.
  \<open>str.lower()\<close> is modelled on the ASCII letters and leaves every other character as it
  is. No character outside ASCII lowers to a letter of \<open>portrait\<close> or \<open>landscape\<close>, so
  the orientation test below decides as Python's does.
\<close>

definition lower_char :: "char \<Rightarrow> char" where
  "lower_char c =
     (case map_of (zip ''ABCDEFGHIJKLMNOPQRSTUVWXYZ'' ''abcdefghijklmnopqrstuvwxyz'') c of
        Some c' \<Rightarrow> c'
      | None \<Rightarrow> c)"

definition lower :: "string \<Rightarrow> string" where
  "lower s = map lower_char s"

text \<open>
  The text a box draws is a Python \<open>str\<close>, a sequence of Unicode code points: the
  bidirectional category is a property of a code point, not of a byte.
\<close>

type_synonym codepoint = nat
type_synonym ustr = "codepoint list"

section \<open>Fonts\<close>

record SFontKey =
  strFont :: string
  strStyle :: string

definition Str :: "SFontKey \<Rightarrow> string" where
  "Str fontkey = lower (strFont fontkey) @ strStyle fontkey"

section \<open>The PDF document\<close>

text \<open>
  \<open>CPdf\<close> extends the \<open>fpdf.FPDF\<close> document of the library. Of the document's state the
  code reads the scale factor \<open>k\<close> (points per unit) and the registered fonts, of which
  it reads the descriptor's raw cap height only, so \<open>fonts\<close> maps a font key to that
  number. The font selected by \<open>set_font\<close> is kept, since \<open>get_string_width\<close> measures
  in it, and every call the code makes on the document is appended to \<open>calls\<close>.
\<close>

datatype pdf_call =
  Set_font string string real
| Get_string_width ustr
| Local_context_enter string real
| Local_context_exit
| Set_draw_color int int int
| Set_text_color int int int
| Text_at real real ustr

record CPdf =
  k :: real
  fonts :: "string \<rightharpoonup> real"
  font_family :: string
  font_style :: string
  font_size_pt :: real
  calls :: "pdf_call list"

text \<open>
  \<open>CPdf.__init__\<close> opens the document with \<open>unit='in'\<close>, for which the library's scale
  factor is 72 points; a new document has no font registered or selected (the
  library's initial size of 12 points is kept here).
\<close>

definition CPdf_init :: CPdf where
  "CPdf_init = \<lparr>k = 72, fonts = Map.empty, font_family = [], font_style = [],
                font_size_pt = 12, calls = []\<rparr>"

text \<open>
  What the code uses and does not define: the Unicode tables and text shaping of
  \<open>unicodedata\<close>, \<open>unicategories\<close>, \<open>arabic_reshaper\<close> and \<open>bidi\<close>, and the glyph metrics
  behind \<open>FPDF.get_string_width\<close>. They are parameters of the model:
  \<open>string_width family style size text\<close> is the width, in document units, of \<open>text\<close>
  set in that font at \<open>size\<close> points.
\<close>

record extern =
  bidirectional :: "codepoint \<Rightarrow> string"
  reshape :: "ustr \<Rightarrow> ustr"
  get_display :: "ustr \<Rightarrow> ustr"
  s_strControl :: "codepoint list"
  string_width :: "string \<Rightarrow> string \<Rightarrow> real \<Rightarrow> ustr \<Rightarrow> real"

text \<open>
  Of the library's \<open>set_font(family, style, size)\<close> the model keeps what the results
  depend on: the font and size selected, and that the size 0 means the current size
  (\<open>if size == 0: size = self.font_size_pt\<close>). The call is logged with the arguments it
  was given.
\<close>

definition set_font :: "CPdf \<Rightarrow> string \<Rightarrow> string \<Rightarrow> real \<Rightarrow> CPdf" where
  "set_font pdf family style sz =
     pdf\<lparr>font_family := family, font_style := style,
         font_size_pt := (if sz = 0 then font_size_pt pdf else sz),
         calls := calls pdf @ [Set_font family style sz]\<rparr>"

definition get_string_width :: "extern \<Rightarrow> CPdf \<Rightarrow> ustr \<Rightarrow> real \<times> CPdf" where
  "get_string_width ext pdf s =
     (string_width ext (font_family pdf) (font_style pdf) (font_size_pt pdf) s,
      pdf\<lparr>calls := calls pdf @ [Get_string_width s]\<rparr>)"

definition pdf_do :: "CPdf \<Rightarrow> pdf_call list \<Rightarrow> CPdf" where
  "pdf_do pdf cs = pdf\<lparr>calls := calls pdf @ cs\<rparr>"

subsection \<open>Page formats\<close>

datatype fmt = FmtName string | FmtSize real real

definition s_mpStrFormatWH :: "(string \<times> real \<times> real) list" where
  "s_mpStrFormatWH = [
    (''letter'', 612.00, 792.00),
    (''legal'', 612.00, 1008.00),
    (''ledger'', 792.00, 1224.00),
    (''tabloid'', 792.00, 1224.00),
    (''executive'', 522.00, 756.00),
    (''ansi-a'', 612.00, 792.00),
    (''ansi-b'', 792.00, 1224.00),
    (''ansi-c'', 1224.00, 1584.00),
    (''ansi-d'', 1584.00, 2448.00),
    (''ansi-e'', 2448.00, 3168.00),
    (''arch-a'', 648.00, 864.00),
    (''arch-b'', 864.00, 1296.00),
    (''arch-c'', 1296.00, 1728.00),
    (''arch-d'', 1728.00, 2592.00),
    (''arch-e'', 2592.00, 3456.00),
    (''arch-e1'', 2160.00, 3024.00),
    (''arch-e2'', 1872.00, 2736.00),
    (''arch-e3'', 1944.00, 2808.00),
    (''a0'', 2383.94, 3370.39),
    (''a1'', 1683.78, 2383.94),
    (''a2'', 1190.55, 1683.78),
    (''a3'', 841.89, 1190.55),
    (''a4'', 595.28, 841.89),
    (''a5'', 419.53, 595.28),
    (''a6'', 297.64, 419.53),
    (''a7'', 209.76, 297.64),
    (''a8'', 147.40, 209.76),
    (''a9'', 104.88, 147.40),
    (''a10'', 73.70, 104.88),
    (''b0'', 2834.65, 4008.19),
    (''b1'', 2004.09, 2834.65),
    (''b2'', 1417.32, 2004.09),
    (''b3'', 1000.63, 1417.32),
    (''b4'', 708.66, 1000.63),
    (''b5'', 498.90, 708.66),
    (''b6'', 354.33, 498.90),
    (''b7'', 249.45, 354.33),
    (''b8'', 175.75, 249.45),
    (''b9'', 124.72, 175.75),
    (''b10'', 87.87, 124.72),
    (''c0'', 2599.37, 3676.54),
    (''c1'', 1836.85, 2599.37),
    (''c2'', 1298.27, 1836.85),
    (''c3'', 918.43, 1298.27),
    (''c4'', 649.13, 918.43),
    (''c5'', 459.21, 649.13),
    (''c6'', 323.15, 459.21),
    (''c7'', 229.61, 323.15),
    (''c8'', 161.57, 229.61),
    (''c9'', 113.39, 161.57),
    (''c10'', 79.37, 113.39),
    (''ra0'', 2437.80, 3458.27),
    (''ra1'', 1729.13, 2437.80),
    (''ra2'', 1218.90, 1729.13),
    (''ra3'', 864.57, 1218.90),
    (''ra4'', 609.45, 864.57),
    (''sra0'', 2551.18, 3628.35),
    (''sra1'', 1814.17, 2551.18),
    (''sra2'', 1275.59, 1814.17),
    (''sra3'', 907.09, 1275.59),
    (''sra4'', 637.80, 907.09),
    (''8R'', 576.00, 720.00),
    (''11R'', 792.00, 1224.00),
    (''16R'', 1152.00, 1440.00),
    (''8x10'', 576.00, 720.00),
    (''11x14'', 792.00, 1224.00),
    (''12x18'', 864.00, 1296.00),
    (''16x20'', 1152.00, 1440.00),
    (''18x24'', 1296.00, 1728.00),
    (''22x28'', 1584.00, 2016.00),
    (''24x36'', 1728.00, 2592.00),
    (''36x48'', 2592.00, 3456.00),
    (''40x60'', 2880.00, 4320.00)]"

text \<open>
  \<open>CPdf.__init__\<close> runs \<open>PAGE_FORMATS.update(s_mpStrFormatWH)\<close> on the library's table:
  the entries of the table above replace or extend whatever the library had (\<open>base\<close>).
  No key occurs twice in the table.
\<close>

definition PAGE_FORMATS :: "(string \<rightharpoonup> real \<times> real) \<Rightarrow> (string \<rightharpoonup> real \<times> real)" where
  "PAGE_FORMATS base = base ++ map_of s_mpStrFormatWH"

text \<open>
  The library's \<open>get_page_format(format, k)\<close>: a name is lowered and looked up in
  \<open>PAGE_FORMATS\<close>, and an unknown one raises; a pair of numbers is a size in document
  units and is scaled to points.
\<close>

definition get_page_format ::
  "(string \<rightharpoonup> real \<times> real) \<Rightarrow> fmt \<Rightarrow> real \<Rightarrow> error + real \<times> real" where
  "get_page_format formats f kk =
     (case f of
        FmtName s \<Rightarrow>
          (case formats (lower s) of
             Some wh \<Rightarrow> Inr wh
           | None \<Rightarrow> Inl FPDFPageFormatException)
      | FmtSize w h \<Rightarrow> Inr (w * kk, h * kk))"

text \<open>
  \<open>CPdf.TuDxDyFromOrientationFmt\<close>. The \<open>None\<close> test comes first; then the format is
  resolved, the orientation lowered and compared, and the \<open>assert\<close> is the last branch.
  A division by \<open>k = 0\<close> raises.
\<close>

definition TuDxDyFromOrientationFmt ::
  "(string \<rightharpoonup> real \<times> real) \<Rightarrow> CPdf \<Rightarrow> string \<Rightarrow> fmt option \<Rightarrow> error + (real \<times> real) option" where
  "TuDxDyFromOrientationFmt formats self strOrientation fmt =
     (case fmt of
        None \<Rightarrow> Inr None
      | Some f \<Rightarrow>
          (case get_page_format formats f (k self) of
             Inl e \<Rightarrow> Inl e
           | Inr (dXPt, dYPt) \<Rightarrow>
               (let strOrientation' = lower strOrientation in
                if strOrientation' \<in> set [''p'', ''portrait''] then
                  (if k self = 0 then Inl ZeroDivisionError
                   else Inr (Some (dXPt / k self, dYPt / k self)))
                else if strOrientation' \<in> set [''l'', ''landscape''] then
                  (if k self = 0 then Inl ZeroDivisionError
                   else Inr (Some (dYPt / k self, dXPt / k self)))
                else Inl AssertionError)))"

subsection \<open>\<open>CFontInstance\<close>\<close>

record CFontInstance =
  fontkey :: SFontKey
  dYFont :: real
  dPtFont :: real
  dYCap :: real

text \<open>
  \<open>CFontInstance.__init__\<close>: \<open>pdf.fonts[...]\<close> raises \<open>KeyError\<close> for a key that is not
  registered. The two \<open>try\<close> blocks read the same number, the descriptor's cap height,
  from either shape of the library's font object.
\<close>

definition CFontInstance_init :: "CPdf \<Rightarrow> SFontKey \<Rightarrow> real \<Rightarrow> error + CFontInstance" where
  "CFontInstance_init pdf fk dYF =
     (case fonts pdf (Str fk) of
        None \<Rightarrow> Inl KeyError
      | Some dYCapRaw \<Rightarrow>
          Inr \<lparr>fontkey = fk, dYFont = dYF, dPtFont = dYF * 72, dYCap = dYCapRaw * dYF / 1000\<rparr>)"

section \<open>Colors\<close>

record SColor =
  r :: int
  g :: int
  b :: int
  a :: int

text \<open>
  \<open>colorsys.rgb_to_hsv\<close> and \<open>colorsys.hsv_to_rgb\<close> of the Python standard library,
  statement by statement. \<open>x % 1.0\<close> is \<open>x - floor x\<close>, \<open>int\<close> truncates towards zero, and
  \<open>i % 6\<close> lies in \<open>0..5\<close>, so the last \<open>if\<close> of \<open>hsv_to_rgb\<close> is the remaining case.
  \<open>rangec / maxc\<close> raises when \<open>maxc\<close> is zero.
\<close>

definition rgb_to_hsv :: "real \<Rightarrow> real \<Rightarrow> real \<Rightarrow> error + real \<times> real \<times> real" where
  "rgb_to_hsv cr cg cb =
     (let maxc = max (max cr cg) cb;
          minc = min (min cr cg) cb;
          rangec = maxc - minc;
          v = maxc
      in if minc = maxc then Inr (0, 0, v)
         else if maxc = 0 then Inl ZeroDivisionError
         else
           (let s = rangec / maxc;
                rc = (maxc - cr) / rangec;
                gc = (maxc - cg) / rangec;
                bc = (maxc - cb) / rangec;
                h = (if cr = maxc then bc - gc
                     else if cg = maxc then 2 + rc - bc
                     else 4 + gc - rc)
            in Inr (frac (h / 6), s, v)))"

definition py_int :: "real \<Rightarrow> int" where
  "py_int z = (if 0 \<le> z then \<lfloor>z\<rfloor> else \<lceil>z\<rceil>)"

definition hsv_to_rgb :: "real \<Rightarrow> real \<Rightarrow> real \<Rightarrow> real \<times> real \<times> real" where
  "hsv_to_rgb h s v =
     (if s = 0 then (v, v, v)
      else
        (let i = py_int (h * 6);
             f = h * 6 - real_of_int i;
             p = v * (1 - s);
             q = v * (1 - s * f);
             t = v * (1 - s * (1 - f));
             i' = i mod 6
         in if i' = 0 then (v, t, p)
            else if i' = 1 then (q, v, p)
            else if i' = 2 then (p, v, t)
            else if i' = 3 then (p, q, v)
            else if i' = 4 then (t, p, v)
            else (v, p, q)))"

definition ColorResaturate :: "SColor \<Rightarrow> real \<Rightarrow> real \<Rightarrow> real \<Rightarrow> real \<Rightarrow> error + SColor" where
  "ColorResaturate color rS dS rV dV =
     (case rgb_to_hsv (real_of_int (r color) / 255) (real_of_int (g color) / 255)
             (real_of_int (b color) / 255) of
        Inl e \<Rightarrow> Inl e
      | Inr (h, s, v) \<Rightarrow>
          (let s' = min 1 (max 0 (s * rS + dS));
               v' = min 1 (max 0 (v * rV + dV))
           in case hsv_to_rgb h s' v' of
                (r', g', b') \<Rightarrow>
                  Inr \<lparr>r = py_round (r' * 255), g = py_round (g' * 255),
                       b = py_round (b' * 255), a = a color\<rparr>))"

section \<open>The one-line text box\<close>

datatype JH = Left | Center | Right

datatype JV = Bottom | Middle | Top

record SHaloArgs =
  color :: SColor
  uPtLine :: real

text \<open>\<open>FHasAnyRtl\<close>: the loop returns at the first character of category AL or R.\<close>

fun FHasAnyRtl :: "extern \<Rightarrow> ustr \<Rightarrow> bool" where
  "FHasAnyRtl ext [] = False"
| "FHasAnyRtl ext (ch # strText) =
     (let strBidi = bidirectional ext ch
      in if strBidi \<in> set [''AL'', ''R''] then True else FHasAnyRtl ext strText)"

text \<open>
  \<open>str.translate\<close> with the table \<open>s_transRemoveControl\<close> deletes the characters of
  \<open>s_strControl\<close>.
\<close>

definition translate_RemoveControl :: "extern \<Rightarrow> ustr \<Rightarrow> ustr" where
  "translate_RemoveControl ext strText = filter (\<lambda>ch. ch \<notin> set (s_strControl ext)) strText"

text \<open>
  The box keeps its font instance, its rectangle, the cap height, the margin and the
  rectangle inside the margin. The document it draws on is passed to each operation.
\<close>

record COneLineTextBox =
  fonti :: CFontInstance
  rect :: SRect
  oltb_dYCap :: real
  dSMargin :: real
  rectMargin :: SRect

text \<open>
  \<open>a or b\<close> on an optional number: \<open>None\<close> and zero are false, and then the value is \<open>b\<close>.
\<close>

definition py_or :: "real option \<Rightarrow> real \<Rightarrow> real" where
  "py_or v d = (case v of None \<Rightarrow> d | Some m \<Rightarrow> if m = 0 then d else m)"

definition COneLineTextBox_init ::
  "CPdf \<Rightarrow> SRect \<Rightarrow> SFontKey \<Rightarrow> real \<Rightarrow> real option \<Rightarrow> error + COneLineTextBox" where
  "COneLineTextBox_init pdf rc fk dYF dSM =
     (case CFontInstance_init pdf fk dYF of
        Inl e \<Rightarrow> Inl e
      | Inr fi \<Rightarrow>
          (let cap = dYCap fi;
               m = py_or dSM (max 0 ((SRect_dY rc - cap) / 2))
           in Inr \<lparr>fonti = fi, rect = rc, oltb_dYCap = cap, dSMargin = m,
                   rectMargin = Inset (Copy rc None None None None) m\<rparr>))"

text \<open>
  \<open>RectDrawText\<close>, lines 355 to 358: a text with a right-to-left character is reshaped,
  reordered and stripped of the format characters; any other text is left as it is.
\<close>

definition RectDrawText_prepare :: "extern \<Rightarrow> ustr \<Rightarrow> ustr" where
  "RectDrawText_prepare ext strText =
     (if FHasAnyRtl ext strText
      then translate_RemoveControl ext (get_display ext (reshape ext strText))
      else strText)"

text \<open>
  \<open>RectDrawText\<close>, lines 364 to 371: the body of the \<open>if\<close> that shrinks the font. It is
  straight-line code: one division, one new font instance, one \<open>set_font\<close> and one
  measurement. \<open>dXText\<close> is the width measured before.
\<close>

definition RectDrawText_shrink ::
  "extern \<Rightarrow> CPdf \<Rightarrow> COneLineTextBox \<Rightarrow> ustr \<Rightarrow> real \<Rightarrow> error + real \<times> COneLineTextBox \<times> CPdf" where
  "RectDrawText_shrink ext pdf self strText dXText =
     (if dXText = 0 then Inl ZeroDivisionError
      else
        (let rReduce = SRect_dX (rectMargin self) / dXText;
             dYFontReduced = rReduce * dYFont (fonti self)
         in case CFontInstance_init pdf (fontkey (fonti self)) dYFontReduced of
              Inl e \<Rightarrow> Inl e
            | Inr fi \<Rightarrow>
                (let self' = self\<lparr>fonti := fi, oltb_dYCap := dYCap fi\<rparr>;
                     pdf' = set_font pdf (strFont (fontkey fi)) (strStyle (fontkey fi)) (dPtFont fi)
                 in case get_string_width ext pdf' strText of
                      (dXText', pdf'') \<Rightarrow> Inr (dXText', self', pdf''))))"

text \<open>
  \<open>RectDrawText\<close>, lines 375 to 402: the text rectangle, its placement, the halo, the
  text, and the rectangle returned. \<open>if haloa\<close> is true for every \<open>SHaloArgs\<close> object.
\<close>

definition RectDrawText_place ::
  "CPdf \<Rightarrow> COneLineTextBox \<Rightarrow> ustr \<Rightarrow> real \<Rightarrow> SColor \<Rightarrow> JH \<Rightarrow> JV \<Rightarrow> SHaloArgs option
     \<Rightarrow> SRect \<times> CPdf" where
  "RectDrawText_place pdf self strText dXText col jh jv haloa =
     (let rm = rectMargin self;
          rectText0 = SRect_init 0 0 dXText (oltb_dYCap self);
          rectText1 =
            (case jh of
               Left \<Rightarrow> SRect_x_set rectText0 (SRect_x rm)
             | Center \<Rightarrow> SRect_x_set rectText0 (SRect_x rm + (SRect_dX rm - SRect_dX rectText0) / 2)
             | Right \<Rightarrow> SRect_x_set rectText0 (SRect_x rm + SRect_dX rm - SRect_dX rectText0));
          rectText =
            (case jv of
               Bottom \<Rightarrow> SRect_y_set rectText1 (SRect_y rm + SRect_dY rm)
             | Middle \<Rightarrow> SRect_y_set rectText1 (SRect_y rm + (SRect_dY rm + SRect_dY rectText1) / 2)
             | Top \<Rightarrow> SRect_y_set rectText1 (SRect_y rm + SRect_dY rectText1));
          pdf1 =
            (case haloa of
               None \<Rightarrow> pdf
             | Some h \<Rightarrow>
                 (let dSLine = dPtFont (fonti self) * uPtLine h
                  in pdf_do pdf
                       [Local_context_enter ''STROKE'' dSLine,
                        Set_draw_color (r (color h)) (g (color h)) (b (color h)),
                        Text_at (SRect_x rectText) (SRect_y rectText) strText,
                        Local_context_exit]));
          pdf2 = pdf_do pdf1
                   [Set_text_color (r col) (g col) (b col),
                    Text_at (SRect_x rectText) (SRect_y rectText) strText]
      in (SRect_Shift (Copy rectText None None None None) 0 (- SRect_dY rectText), pdf2))"

text \<open>
  \<open>RectDrawText\<close>, lines 360 to 373: the font of the box is selected, the text is
  measured, and the text is shrunk when that is asked for and the width is over the
  usable width \<open>rectMargin.dX\<close>. There is no loop.
\<close>

definition RectDrawText_fit ::
  "extern \<Rightarrow> CPdf \<Rightarrow> COneLineTextBox \<Rightarrow> ustr \<Rightarrow> bool \<Rightarrow> error + real \<times> COneLineTextBox \<times> CPdf" where
  "RectDrawText_fit ext pdf self strText fShrinkToFit =
     (let pdf1 = set_font pdf (strFont (fontkey (fonti self))) (strStyle (fontkey (fonti self)))
                   (dPtFont (fonti self))
      in case get_string_width ext pdf1 strText of
           (dXText, pdf2) \<Rightarrow>
             if fShrinkToFit \<and> dXText > SRect_dX (rectMargin self)
             then RectDrawText_shrink ext pdf2 self strText dXText
             else Inr (dXText, self, pdf2))"

text \<open>
  \<open>COneLineTextBox.RectDrawText\<close>: the three parts in order. The result is the
  rectangle returned, with the box and the document as the call leaves them.
\<close>

definition RectDrawText ::
  "extern \<Rightarrow> CPdf \<Rightarrow> COneLineTextBox \<Rightarrow> ustr \<Rightarrow> SColor \<Rightarrow> JH \<Rightarrow> JV \<Rightarrow> bool \<Rightarrow> SHaloArgs option
     \<Rightarrow> error + SRect \<times> COneLineTextBox \<times> CPdf" where
  "RectDrawText ext pdf self strText0 col jh jv fShrinkToFit haloa =
     (let strText = RectDrawText_prepare ext strText0
      in case RectDrawText_fit ext pdf self strText fShrinkToFit of
           Inl e \<Rightarrow> Inl e
         | Inr (dXText, self', pdf3) \<Rightarrow>
             (case RectDrawText_place pdf3 self' strText dXText col jh jv haloa of
                (rectReturn, pdf4) \<Rightarrow> Inr (rectReturn, self', pdf4)))"

subsection \<open>The text box in rounded arithmetic\<close>

text \<open>
  The constructors and \<open>RectDrawText\<close> again, with the rounding \<open>fl\<close> applied to the result
  of every arithmetic operation, in the source's order of evaluation:
  \<open>dYCapRaw * self.dYFont / 1000.0\<close> is a product and then a quotient, and
  \<open>self.rectMargin.x + (self.rectMargin.dX - rectText.dX) / 2.0\<close> is a difference of two
  differences, a quotient and a sum.
\<close>

definition CFontInstance_init_fl ::
  "(real \<Rightarrow> real) \<Rightarrow> CPdf \<Rightarrow> SFontKey \<Rightarrow> real \<Rightarrow> error + CFontInstance" where
  "CFontInstance_init_fl fl pdf fk dYF =
     (case fonts pdf (Str fk) of
        None \<Rightarrow> Inl KeyError
      | Some dYCapRaw \<Rightarrow>
          Inr \<lparr>fontkey = fk, dYFont = dYF, dPtFont = fl (dYF * 72),
               dYCap = fl (fl (dYCapRaw * dYF) / 1000)\<rparr>)"

definition COneLineTextBox_init_fl ::
  "(real \<Rightarrow> real) \<Rightarrow> CPdf \<Rightarrow> SRect \<Rightarrow> SFontKey \<Rightarrow> real \<Rightarrow> real option
     \<Rightarrow> error + COneLineTextBox" where
  "COneLineTextBox_init_fl fl pdf rc fk dYF dSM =
     (case CFontInstance_init_fl fl pdf fk dYF of
        Inl e \<Rightarrow> Inl e
      | Inr fi \<Rightarrow>
          (let cap = dYCap fi;
               m = py_or dSM (max 0 (fl (fl (SRect_dY_fl fl rc - cap) / 2)))
           in Inr \<lparr>fonti = fi, rect = rc, oltb_dYCap = cap, dSMargin = m,
                   rectMargin = Inset_fl fl (Copy rc None None None None) m\<rparr>))"

definition RectDrawText_shrink_fl ::
  "(real \<Rightarrow> real) \<Rightarrow> extern \<Rightarrow> CPdf \<Rightarrow> COneLineTextBox \<Rightarrow> ustr \<Rightarrow> real
     \<Rightarrow> error + real \<times> COneLineTextBox \<times> CPdf" where
  "RectDrawText_shrink_fl fl ext pdf self strText dXText =
     (if dXText = 0 then Inl ZeroDivisionError
      else
        (let rReduce = fl (SRect_dX_fl fl (rectMargin self) / dXText);
             dYFontReduced = fl (rReduce * dYFont (fonti self))
         in case CFontInstance_init_fl fl pdf (fontkey (fonti self)) dYFontReduced of
              Inl e \<Rightarrow> Inl e
            | Inr fi \<Rightarrow>
                (let self' = self\<lparr>fonti := fi, oltb_dYCap := dYCap fi\<rparr>;
                     pdf' = set_font pdf (strFont (fontkey fi)) (strStyle (fontkey fi)) (dPtFont fi)
                 in case get_string_width ext pdf' strText of
                      (dXText', pdf'') \<Rightarrow> Inr (dXText', self', pdf''))))"

definition RectDrawText_place_fl ::
  "(real \<Rightarrow> real) \<Rightarrow> CPdf \<Rightarrow> COneLineTextBox \<Rightarrow> ustr \<Rightarrow> real \<Rightarrow> SColor \<Rightarrow> JH \<Rightarrow> JV
     \<Rightarrow> SHaloArgs option \<Rightarrow> SRect \<times> CPdf" where
  "RectDrawText_place_fl fl pdf self strText dXText col jh jv haloa =
     (let rm = rectMargin self;
          rectText0 = SRect_init_fl fl 0 0 dXText (oltb_dYCap self);
          rectText1 =
            (case jh of
               Left \<Rightarrow> SRect_x_set_fl fl rectText0 (SRect_x rm)
             | Center \<Rightarrow>
                 SRect_x_set_fl fl rectText0
                   (fl (SRect_x rm + fl (fl (SRect_dX_fl fl rm - SRect_dX_fl fl rectText0) / 2)))
             | Right \<Rightarrow>
                 SRect_x_set_fl fl rectText0
                   (fl (fl (SRect_x rm + SRect_dX_fl fl rm) - SRect_dX_fl fl rectText0)));
          rectText =
            (case jv of
               Bottom \<Rightarrow> SRect_y_set_fl fl rectText1 (fl (SRect_y rm + SRect_dY_fl fl rm))
             | Middle \<Rightarrow>
                 SRect_y_set_fl fl rectText1
                   (fl (SRect_y rm + fl (fl (SRect_dY_fl fl rm + SRect_dY_fl fl rectText1) / 2)))
             | Top \<Rightarrow> SRect_y_set_fl fl rectText1 (fl (SRect_y rm + SRect_dY_fl fl rectText1)));
          pdf1 =
            (case haloa of
               None \<Rightarrow> pdf
             | Some h \<Rightarrow>
                 (let dSLine = fl (dPtFont (fonti self) * uPtLine h)
                  in pdf_do pdf
                       [Local_context_enter ''STROKE'' dSLine,
                        Set_draw_color (r (color h)) (g (color h)) (b (color h)),
                        Text_at (SRect_x rectText) (SRect_y rectText) strText,
                        Local_context_exit]));
          pdf2 = pdf_do pdf1
                   [Set_text_color (r col) (g col) (b col),
                    Text_at (SRect_x rectText) (SRect_y rectText) strText]
      in (SRect_Shift_fl fl (Copy rectText None None None None) 0 (- SRect_dY_fl fl rectText),
          pdf2))"

definition RectDrawText_fit_fl ::
  "(real \<Rightarrow> real) \<Rightarrow> extern \<Rightarrow> CPdf \<Rightarrow> COneLineTextBox \<Rightarrow> ustr \<Rightarrow> bool
     \<Rightarrow> error + real \<times> COneLineTextBox \<times> CPdf" where
  "RectDrawText_fit_fl fl ext pdf self strText fShrinkToFit =
     (let pdf1 = set_font pdf (strFont (fontkey (fonti self))) (strStyle (fontkey (fonti self)))
                   (dPtFont (fonti self))
      in case get_string_width ext pdf1 strText of
           (dXText, pdf2) \<Rightarrow>
             if fShrinkToFit \<and> dXText > SRect_dX_fl fl (rectMargin self)
             then RectDrawText_shrink_fl fl ext pdf2 self strText dXText
             else Inr (dXText, self, pdf2))"

definition RectDrawText_fl ::
  "(real \<Rightarrow> real) \<Rightarrow> extern \<Rightarrow> CPdf \<Rightarrow> COneLineTextBox \<Rightarrow> ustr \<Rightarrow> SColor \<Rightarrow> JH \<Rightarrow> JV
     \<Rightarrow> bool \<Rightarrow> SHaloArgs option \<Rightarrow> error + SRect \<times> COneLineTextBox \<times> CPdf" where
  "RectDrawText_fl fl ext pdf self strText0 col jh jv fShrinkToFit haloa =
     (let strText = RectDrawText_prepare ext strText0
      in case RectDrawText_fit_fl fl ext pdf self strText fShrinkToFit of
           Inl e \<Rightarrow> Inl e
         | Inr (dXText, self', pdf3) \<Rightarrow>
             (case RectDrawText_place_fl fl pdf3 self' strText dXText col jh jv haloa of
                (rectReturn, pdf4) \<Rightarrow> Inr (rectReturn, self', pdf4)))"

text \<open>
  Two readings of the list of calls: the texts drawn, in order, and the calls that
  select a font or measure a width.
\<close>

fun drawn_texts :: "pdf_call list \<Rightarrow> ustr list" where
  "drawn_texts [] = []"
| "drawn_texts (Text_at px py s # cs) = s # drawn_texts cs"
| "drawn_texts (c # cs) = drawn_texts cs"

fun font_calls :: "pdf_call list \<Rightarrow> pdf_call list" where
  "font_calls [] = []"
| "font_calls (Set_font family style sz # cs) = Set_font family style sz # font_calls cs"
| "font_calls (Get_string_width s # cs) = Get_string_width s # font_calls cs"
| "font_calls (c # cs) = font_calls cs"

section \<open>Example inputs\<close>

text \<open>
  A document with one font registered, of raw cap height 750, and a box of width 2
  and height 1 with the margin 1/4, so that the usable width is 3/2; the font is
  requested at size 1 (72 points).
\<close>

definition pdf_example :: CPdf where
  "pdf_example = CPdf_init\<lparr>fonts := [''helvetica'' \<mapsto> 750]\<rparr>"

definition fontkey_example :: SFontKey where
  "fontkey_example = \<lparr>strFont = ''Helvetica'', strStyle = []\<rparr>"

definition box_example :: COneLineTextBox where
  "box_example =
     \<lparr>fonti = \<lparr>fontkey = fontkey_example, dYFont = 1, dPtFont = 72, dYCap = 3 / 4\<rparr>,
      rect = SRect_init 0 0 2 1, oltb_dYCap = 3 / 4, dSMargin = 1 / 4,
      rectMargin = \<lparr>posMin = \<lparr>x = 1 / 4, y = 1 / 4\<rparr>, posMax = \<lparr>x = 7 / 4, y = 3 / 4\<rparr>\<rparr>\<rparr>"

text \<open>
  Unicode tables cut down to three characters (Hebrew alef, 1488, is R; Arabic alef,
  1575, is AL; everything else is L), a reordering that reverses the text, and the one
  format character 8207 (right-to-left mark). In \<open>extern_proportional\<close> every glyph is
  half an em wide, so the width of a text is proportional to the font size. In
  \<open>extern_spaced\<close> the document also has a character spacing of 1/8 between two
  glyphs, which does not depend on the font size.
\<close>

definition extern_proportional :: extern where
  "extern_proportional =
     \<lparr>bidirectional = (\<lambda>ch. if ch = 1488 then ''R'' else if ch = 1575 then ''AL'' else ''L''),
      reshape = (\<lambda>s. s), get_display = rev, s_strControl = [8207],
      string_width = (\<lambda>family style sz s. sz * real (length s) / 144)\<rparr>"

definition extern_spaced :: extern where
  "extern_spaced =
     extern_proportional
       \<lparr>string_width := (\<lambda>family style sz s. sz * real (length s) / 144 + (real (length s) - 1) / 8)\<rparr>"

text \<open>The text \<open>Hello\<close>, and a black color.\<close>

definition text_example :: ustr where
  "text_example = [72, 101, 108, 108, 111]"

definition color_example :: SColor where
  "color_example = \<lparr>r = 0, g = 0, b = 0, a = 255\<rparr>"

section \<open>Geometry: results\<close>

lemma Copy_plain: "Copy rc None None None None = rc"
  by (simp add: Copy_def SRect_Set_def)

lemma bb_step_corners:
  "x (posMin (bb_step acc q)) = min (x (posMin acc)) (x (posMin q))"
  "y (posMin (bb_step acc q)) = min (y (posMin acc)) (y (posMin q))"
  "x (posMax (bb_step acc q)) = max (x (posMax acc)) (x (posMax q))"
  "y (posMax (bb_step acc q)) = max (y (posMax acc)) (y (posMax q))"
  by (simp_all add: bb_step_def Let_def xMin_def yMin_def xMax_def yMax_def
      xMin_set_def yMin_set_def xMax_set_def yMax_set_def)

lemma bb_loop_corners:
  "x (posMin (bb_loop acc rs)) = fold min (map xMin rs) (xMin acc)"
  "y (posMin (bb_loop acc rs)) = fold min (map yMin rs) (yMin acc)"
  "x (posMax (bb_loop acc rs)) = fold max (map xMax rs) (xMax acc)"
  "y (posMax (bb_loop acc rs)) = fold max (map yMax rs) (yMax acc)"
proof (induction rs arbitrary: acc)
  case Nil
  {
    case 1 show ?case by (simp add: xMin_def)
  next
    case 2 show ?case by (simp add: yMin_def)
  next
    case 3 show ?case by (simp add: xMax_def)
  next
    case 4 show ?case by (simp add: yMax_def)
  }
next
  case (Cons q rs)
  {
    case 1 show ?case
      by (simp add: Cons.IH(1) xMin_def bb_step_corners min.commute)
  next
    case 2 show ?case
      by (simp add: Cons.IH(2) yMin_def bb_step_corners min.commute)
  next
    case 3 show ?case
      by (simp add: Cons.IH(3) xMax_def bb_step_corners max.commute)
  next
    case 4 show ?case
      by (simp add: Cons.IH(4) yMax_def bb_step_corners max.commute)
  }
qed

lemma RectBoundingBox_corners:
  "x (posMin (RectBoundingBox (rc # rs))) = Min (set (map xMin (rc # rs)))"
  "y (posMin (RectBoundingBox (rc # rs))) = Min (set (map yMin (rc # rs)))"
  "x (posMax (RectBoundingBox (rc # rs))) = Max (set (map xMax (rc # rs)))"
  "y (posMax (RectBoundingBox (rc # rs))) = Max (set (map yMax (rc # rs)))"
  by (simp_all only: RectBoundingBox.simps Copy_plain bb_loop_corners list.map
      Min.set_eq_fold Max.set_eq_fold)

text \<open>
  C4. \<open>RectBoundingBox\<close> of a non-empty sequence is the rectangle whose \<open>posMin\<close> is the
  componentwise minimum of the \<open>posMin\<close> of the inputs and whose \<open>posMax\<close> is the
  componentwise maximum of their \<open>posMax\<close>; of the one-element sequence \<open>[R]\<close> it is a
  copy of \<open>R\<close>; of the empty sequence it is the default rectangle, of size zero at the
  origin.
\<close>

theorem RectBoundingBox_spec:
  "RectBoundingBox (rc # rs) =
     \<lparr>posMin = \<lparr>x = Min (set (map xMin (rc # rs))), y = Min (set (map yMin (rc # rs)))\<rparr>,
      posMax = \<lparr>x = Max (set (map xMax (rc # rs))), y = Max (set (map yMax (rc # rs)))\<rparr>\<rparr>
   \<and> RectBoundingBox [rc] = Copy rc None None None None
   \<and> RectBoundingBox [rc] = rc
   \<and> RectBoundingBox [] = \<lparr>posMin = \<lparr>x = 0, y = 0\<rparr>, posMax = \<lparr>x = 0, y = 0\<rparr>\<rparr>"
proof -
  have "posMin (RectBoundingBox (rc # rs)) =
      \<lparr>x = Min (set (map xMin (rc # rs))), y = Min (set (map yMin (rc # rs)))\<rparr>"
    by (rule SPoint.equality) (simp_all add: RectBoundingBox_corners del: RectBoundingBox.simps)
  moreover have "posMax (RectBoundingBox (rc # rs)) =
      \<lparr>x = Max (set (map xMax (rc # rs))), y = Max (set (map yMax (rc # rs)))\<rparr>"
    by (rule SPoint.equality) (simp_all add: RectBoundingBox_corners del: RectBoundingBox.simps)
  ultimately have "RectBoundingBox (rc # rs) =
     \<lparr>posMin = \<lparr>x = Min (set (map xMin (rc # rs))), y = Min (set (map yMin (rc # rs)))\<rparr>,
      posMax = \<lparr>x = Max (set (map xMax (rc # rs))), y = Max (set (map yMax (rc # rs)))\<rparr>\<rparr>"
    by (intro SRect.equality) simp_all
  moreover have "RectBoundingBox [rc] = Copy rc None None None None"
    by simp
  moreover have "RectBoundingBox [rc] = rc"
    by (simp add: Copy_plain)
  moreover have "RectBoundingBox [] = \<lparr>posMin = \<lparr>x = 0, y = 0\<rparr>, posMax = \<lparr>x = 0, y = 0\<rparr>\<rparr>"
    by (simp add: SRect_init_def)
  ultimately show ?thesis by blast
qed

theorem RectBoundingBox_spec_witness:
  "RectBoundingBox [SRect_init 1 2 3 4, SRect_init 0 3 2 5, SRect_init 2 1 1 1] =
     \<lparr>posMin = \<lparr>x = 0, y = 1\<rparr>, posMax = \<lparr>x = 4, y = 8\<rparr>\<rparr>"
proof -
  let ?rs = "[SRect_init 1 2 3 4, SRect_init 0 3 2 5, SRect_init 2 1 1 1]"
  have "RectBoundingBox ?rs =
     \<lparr>posMin = \<lparr>x = Min (set (map xMin ?rs)), y = Min (set (map yMin ?rs))\<rparr>,
      posMax = \<lparr>x = Max (set (map xMax ?rs)), y = Max (set (map yMax ?rs))\<rparr>\<rparr>"
    using RectBoundingBox_spec [of "SRect_init 1 2 3 4" "[SRect_init 0 3 2 5, SRect_init 2 1 1 1]"]
    by (rule conjunct1)
  also have "\<dots> = \<lparr>posMin = \<lparr>x = 0, y = 1\<rparr>, posMax = \<lparr>x = 4, y = 8\<rparr>\<rparr>"
    by (simp add: SRect_init_def xMin_def yMin_def xMax_def yMax_def)
  finally show ?thesis .
qed

section \<open>Geometry in rounded arithmetic: results\<close>

text \<open>In exact arithmetic the rounded operations are the exact ones.\<close>

lemma geometry_fl_exact:
  "SPoint_Shift_fl (\<lambda>z. z) = SPoint_Shift"
  "SRect_init_fl (\<lambda>z. z) = SRect_init"
  "SRect_Shift_fl (\<lambda>z. z) = SRect_Shift"
  "Inset_fl (\<lambda>z. z) = Inset"
  "Outset_fl (\<lambda>z. z) = Outset"
  "SRect_dX_fl (\<lambda>z. z) = SRect_dX"
  "SRect_dY_fl (\<lambda>z. z) = SRect_dY"
  "SRect_x_set_fl (\<lambda>z. z) = SRect_x_set"
  "SRect_y_set_fl (\<lambda>z. z) = SRect_y_set"
  "SRect_dX_set_fl (\<lambda>z. z) = SRect_dX_set"
  "SRect_dY_set_fl (\<lambda>z. z) = SRect_dY_set"
  by (simp_all add: fun_eq_iff SPoint_Shift_fl_def SPoint_Shift_def SRect_init_fl_def SRect_init_def
      SRect_Shift_fl_def SRect_Shift_def Inset_fl_def Inset_def Outset_fl_def Outset_def
      SRect_dX_fl_def SRect_dX_def SRect_dY_fl_def SRect_dY_def SRect_x_set_fl_def SRect_x_set_def
      SRect_y_set_fl_def SRect_y_set_def SRect_dX_set_fl_def SRect_dX_set_def
      SRect_dY_set_fl_def SRect_dY_set_def)

text \<open>Doubles met below, each rounding evaluated on its own.\<close>

lemma doubles_tenths:
  "binary64 (1 / 10) = 3602879701896397 / 2 ^ 55"
  "binary64 (7 / 10) = 3152519739159347 / 2 ^ 52"
  "binary64 ((3602879701896397 / 2 ^ 55) + (3152519739159347 / 2 ^ 52)) = 7205759403792793 / 2 ^ 53"
  "binary64 ((7205759403792793 / 2 ^ 53) - (3152519739159347 / 2 ^ 52)) = 900719925474099 / 2 ^ 53"
  "binary64 (3 / 10) = 5404319552844595 / 2 ^ 54"
  "binary64 ((3602879701896397 / 2 ^ 55) + (5404319552844595 / 2 ^ 54)) = 3602879701896397 / 2 ^ 53"
  "binary64 ((3602879701896397 / 2 ^ 53) + (3152519739159347 / 2 ^ 52)) = 2476979795053773 / 2 ^ 51"
  "binary64 ((2476979795053773 / 2 ^ 51) - (3152519739159347 / 2 ^ 52)) = 1801439850948199 / 2 ^ 52"
  "binary64 ((3602879701896397 / 2 ^ 55) - (3152519739159347 / 2 ^ 52)) = - (5404319552844595 / 2 ^ 53)"
  "binary64 ((3152519739159347 / 2 ^ 52) + (- (5404319552844595 / 2 ^ 53))) = 900719925474099 / 2 ^ 53"
  "binary64 (2 / 10) = 3602879701896397 / 2 ^ 54"
  "binary64 ((3602879701896397 / 2 ^ 55) + (3602879701896397 / 2 ^ 54)) = 1351079888211149 / 2 ^ 52"
  "binary64 ((1351079888211149 / 2 ^ 52) - (3602879701896397 / 2 ^ 55)) = 7205759403792795 / 2 ^ 55"
  "binary64 ((3152519739159347 / 2 ^ 52) - (3602879701896397 / 2 ^ 55)) = 5404319552844595 / 2 ^ 53"
  "binary64 ((1351079888211149 / 2 ^ 52) + (5404319552844595 / 2 ^ 53)) = 8106479329266893 / 2 ^ 53"
  "binary64 ((3602879701896397 / 2 ^ 55) + (5404319552844595 / 2 ^ 53)) = 3152519739159347 / 2 ^ 52"
  "binary64 ((8106479329266893 / 2 ^ 53) - (3152519739159347 / 2 ^ 52)) = 1801439850948199 / 2 ^ 53"
  by code_simp+

lemma doubles_small:
  "binary64 1 = 1" "binary64 2 = 2" "binary64 3 = 3" "binary64 4 = 4" "binary64 5 = 5"
  "binary64 6 = 6" "binary64 7 = 7" "binary64 8 = 8" "binary64 9 = 9" "binary64 10 = 10"
  "binary64 11 = 11" "binary64 12 = 12" "binary64 13 = 13" "binary64 14 = 14"
  "binary64 (- 1) = - 1" "binary64 (- 3) = - 3" "binary64 (- 4) = - 4"
  by code_simp+

text \<open>What the setters and their read-backs compute, for any rounding.\<close>

lemma SRect_setters_fl_read:
  "SRect_x (SRect_x_set_fl fl rc v) = fl (x (posMin rc) + fl (v - x (posMin rc)))"
  "SRect_dX_fl fl (SRect_x_set_fl fl rc v)
     = fl (fl (x (posMax rc) + fl (v - x (posMin rc))) - fl (x (posMin rc) + fl (v - x (posMin rc))))"
  "SRect_dX_fl fl (SRect_dX_set_fl fl rc v) = fl (fl (x (posMin rc) + v) - x (posMin rc))"
  "SRect_y (SRect_y_set_fl fl rc v) = fl (y (posMin rc) + fl (v - y (posMin rc)))"
  "SRect_dY_fl fl (SRect_y_set_fl fl rc v)
     = fl (fl (y (posMax rc) + fl (v - y (posMin rc))) - fl (y (posMin rc) + fl (v - y (posMin rc))))"
  "SRect_dY_fl fl (SRect_dY_set_fl fl rc v) = fl (fl (y (posMin rc) + v) - y (posMin rc))"
  by (simp_all add: SRect_x_def SRect_y_def SRect_dX_fl_def SRect_dY_fl_def SRect_x_set_fl_def
      SRect_y_set_fl_def SRect_dX_set_fl_def SRect_dY_set_fl_def SRect_Shift_fl_def
      SPoint_Shift_fl_def Let_def)

lemma SRect_init_fl_corners:
  "x (posMin (SRect_init_fl fl x0 y0 w h)) = x0" "y (posMin (SRect_init_fl fl x0 y0 w h)) = y0"
  "x (posMax (SRect_init_fl fl x0 y0 w h)) = fl (x0 + w)"
  "y (posMax (SRect_init_fl fl x0 y0 w h)) = fl (y0 + h)"
  by (simp_all add: SRect_init_fl_def)

text \<open>
  C3, as the code has it. Assigning \<open>v\<close> to \<open>dX\<close> leaves \<open>posMin\<close>, and with it \<open>x\<close>, as
  it was and stores the sum \<open>posMin.x + v\<close> in \<open>posMax.x\<close>; assigning \<open>v\<close> to \<open>x\<close> shifts
  both corners by the difference \<open>v - posMin.x\<close> and leaves the \<open>y\<close> coordinates. On floats
  the sum and the difference are rounded: \<open>x\<close> then reads \<open>fl (x0 + fl (v - x0))\<close> and \<open>dX\<close>
  reads \<open>fl (fl (x0 + v) - x0)\<close>. Reading back gives \<open>v\<close>, and the \<open>x\<close> setter leaves \<open>dX\<close>
  as it was, whenever these operations are exact, as they always are on \<open>int\<close> and
  \<open>Fraction\<close> coordinates. The same holds for \<open>y\<close> and \<open>dY\<close>.
\<close>

theorem SRect_setters_fl:
  "SRect_x_set_fl fl rc v = SRect_Shift_fl fl rc (fl (v - x (posMin rc))) 0
   \<and> SRect_x (SRect_x_set_fl fl rc v) = fl (x (posMin rc) + fl (v - x (posMin rc)))
   \<and> (fl v = v \<and> fl (v - x (posMin rc)) = v - x (posMin rc)
        \<and> fl (x (posMax rc) + (v - x (posMin rc))) = x (posMax rc) + (v - x (posMin rc))
        \<and> fl (y (posMin rc)) = y (posMin rc) \<and> fl (y (posMax rc)) = y (posMax rc)
      \<longrightarrow> SRect_x_set_fl fl rc v
            = \<lparr>posMin = \<lparr>x = v, y = y (posMin rc)\<rparr>,
               posMax = \<lparr>x = x (posMax rc) + (v - x (posMin rc)), y = y (posMax rc)\<rparr>\<rparr>
          \<and> SRect_x (SRect_x_set_fl fl rc v) = v
          \<and> SRect_dX_fl fl (SRect_x_set_fl fl rc v) = SRect_dX_fl fl rc)
   \<and> SRect_dX_set_fl fl rc v
        = \<lparr>posMin = posMin rc, posMax = \<lparr>x = fl (x (posMin rc) + v), y = y (posMax rc)\<rparr>\<rparr>
   \<and> SRect_x (SRect_dX_set_fl fl rc v) = SRect_x rc
   \<and> SRect_dX_fl fl (SRect_dX_set_fl fl rc v) = fl (fl (x (posMin rc) + v) - x (posMin rc))
   \<and> (fl v = v \<and> fl (x (posMin rc) + v) = x (posMin rc) + v
      \<longrightarrow> SRect_dX_fl fl (SRect_dX_set_fl fl rc v) = v)
   \<and> SRect_y_set_fl fl rc v = SRect_Shift_fl fl rc 0 (fl (v - y (posMin rc)))
   \<and> SRect_y (SRect_y_set_fl fl rc v) = fl (y (posMin rc) + fl (v - y (posMin rc)))
   \<and> (fl v = v \<and> fl (v - y (posMin rc)) = v - y (posMin rc)
        \<and> fl (y (posMax rc) + (v - y (posMin rc))) = y (posMax rc) + (v - y (posMin rc))
        \<and> fl (x (posMin rc)) = x (posMin rc) \<and> fl (x (posMax rc)) = x (posMax rc)
      \<longrightarrow> SRect_y_set_fl fl rc v
            = \<lparr>posMin = \<lparr>x = x (posMin rc), y = v\<rparr>,
               posMax = \<lparr>x = x (posMax rc), y = y (posMax rc) + (v - y (posMin rc))\<rparr>\<rparr>
          \<and> SRect_y (SRect_y_set_fl fl rc v) = v
          \<and> SRect_dY_fl fl (SRect_y_set_fl fl rc v) = SRect_dY_fl fl rc)
   \<and> SRect_dY_set_fl fl rc v
        = \<lparr>posMin = posMin rc, posMax = \<lparr>x = x (posMax rc), y = fl (y (posMin rc) + v)\<rparr>\<rparr>
   \<and> SRect_y (SRect_dY_set_fl fl rc v) = SRect_y rc
   \<and> SRect_dY_fl fl (SRect_dY_set_fl fl rc v) = fl (fl (y (posMin rc) + v) - y (posMin rc))
   \<and> (fl v = v \<and> fl (y (posMin rc) + v) = y (posMin rc) + v
      \<longrightarrow> SRect_dY_fl fl (SRect_dY_set_fl fl rc v) = v)"
  by (simp add: SRect_x_def SRect_y_def SRect_dX_fl_def SRect_dY_fl_def SRect_x_set_fl_def
      SRect_y_set_fl_def SRect_dX_set_fl_def SRect_dY_set_fl_def SRect_Shift_fl_def
      SPoint_Shift_fl_def Let_def)


theorem SRect_setters_fl_witness:
  "SRect_x_set_fl binary64 (SRect_init_fl binary64 1 2 3 4) 10
     = \<lparr>posMin = \<lparr>x = 10, y = 2\<rparr>, posMax = \<lparr>x = 13, y = 6\<rparr>\<rparr>
   \<and> SRect_x (SRect_x_set_fl binary64 (SRect_init_fl binary64 1 2 3 4) 10) = 10
   \<and> SRect_dX_fl binary64 (SRect_x_set_fl binary64 (SRect_init_fl binary64 1 2 3 4) 10)
       = SRect_dX_fl binary64 (SRect_init_fl binary64 1 2 3 4)
   \<and> SRect_dX_fl binary64 (SRect_dX_set_fl binary64 (SRect_init_fl binary64 1 2 3 4) 10) = 10
   \<and> SRect_x (SRect_dX_set_fl binary64 (SRect_init_fl binary64 1 2 3 4) 10) = 1"
proof -
  let ?rc = "SRect_init_fl binary64 1 2 3 4"
  have rc: "?rc = \<lparr>posMin = \<lparr>x = 1, y = 2\<rparr>, posMax = \<lparr>x = 4, y = 6\<rparr>\<rparr>"
    by (simp add: SRect_init_fl_def doubles_small)
  have hx: "binary64 10 = 10 \<and> binary64 (10 - x (posMin ?rc)) = 10 - x (posMin ?rc)
        \<and> binary64 (x (posMax ?rc) + (10 - x (posMin ?rc))) = x (posMax ?rc) + (10 - x (posMin ?rc))
        \<and> binary64 (y (posMin ?rc)) = y (posMin ?rc) \<and> binary64 (y (posMax ?rc)) = y (posMax ?rc)"
    unfolding rc by (simp add: doubles_small)
  have hd: "binary64 10 = 10 \<and> binary64 (x (posMin ?rc) + 10) = x (posMin ?rc) + 10"
    unfolding rc by (simp add: doubles_small)
  note t = SRect_setters_fl [of binary64 ?rc 10]
  have tx: "SRect_x_set_fl binary64 ?rc 10
            = \<lparr>posMin = \<lparr>x = 10, y = y (posMin ?rc)\<rparr>,
               posMax = \<lparr>x = x (posMax ?rc) + (10 - x (posMin ?rc)), y = y (posMax ?rc)\<rparr>\<rparr>
          \<and> SRect_x (SRect_x_set_fl binary64 ?rc 10) = 10
          \<and> SRect_dX_fl binary64 (SRect_x_set_fl binary64 ?rc 10) = SRect_dX_fl binary64 ?rc"
    using t hx by blast
  have td: "SRect_dX_fl binary64 (SRect_dX_set_fl binary64 ?rc 10) = 10"
    using t hd by blast
  have tq: "SRect_x (SRect_dX_set_fl binary64 ?rc 10) = SRect_x ?rc"
    using t by blast
  have q: "SRect_x ?rc = 1"
    unfolding rc by (simp add: SRect_x_def)
  have e: "\<lparr>posMin = \<lparr>x = 10, y = y (posMin ?rc)\<rparr>,
               posMax = \<lparr>x = x (posMax ?rc) + (10 - x (posMin ?rc)), y = y (posMax ?rc)\<rparr>\<rparr>
      = \<lparr>posMin = \<lparr>x = 10, y = 2\<rparr>, posMax = \<lparr>x = 13, y = 6\<rparr>\<rparr>"
    unfolding rc by simp
  show ?thesis
  proof (intro conjI)
    show "SRect_x_set_fl binary64 ?rc 10
        = \<lparr>posMin = \<lparr>x = 10, y = 2\<rparr>, posMax = \<lparr>x = 13, y = 6\<rparr>\<rparr>"
      using tx [THEN conjunct1] e by (rule trans)
    show "SRect_x (SRect_x_set_fl binary64 ?rc 10) = 10"
      using tx by (elim conjE)
    show "SRect_dX_fl binary64 (SRect_x_set_fl binary64 ?rc 10) = SRect_dX_fl binary64 ?rc"
      using tx by (elim conjE)
    show "SRect_dX_fl binary64 (SRect_dX_set_fl binary64 ?rc 10) = 10"
      by (rule td)
    show "SRect_x (SRect_dX_set_fl binary64 ?rc 10) = 1"
      using tq q by (rule trans)
  qed
qed

text \<open>
  In doubles the read-backs differ. \<open>SRect(0.7, 0, 0.1, 0).x = 0.1\<close> reads
  0.09999999999999998; \<open>SRect(0.1, 0, 0.3, 0).dX = 0.2\<close> reads 0.20000000000000004;
  and on \<open>SRect(0.1, 0, 0.2, 0)\<close>, whose \<open>dX\<close> reads 0.20000000000000004, \<open>x = 0.7\<close>
  leaves a \<open>dX\<close> that reads 0.20000000000000007.
\<close>

theorem SRect_setters_fl_counterexample:
  "binary64 (1 / 10) = 3602879701896397 / 2 ^ 55
   \<and> SRect_x (SRect_x_set_fl binary64
         (SRect_init_fl binary64 (binary64 (7 / 10)) 0 (binary64 (1 / 10)) 0) (binary64 (1 / 10)))
       = 900719925474099 / 2 ^ 53
   \<and> (900719925474099 / 2 ^ 53 :: real) \<noteq> 3602879701896397 / 2 ^ 55
   \<and> binary64 (2 / 10) = 3602879701896397 / 2 ^ 54
   \<and> SRect_dX_fl binary64 (SRect_dX_set_fl binary64
         (SRect_init_fl binary64 (binary64 (1 / 10)) 0 (binary64 (3 / 10)) 0) (binary64 (2 / 10)))
       = 7205759403792795 / 2 ^ 55
   \<and> (7205759403792795 / 2 ^ 55 :: real) \<noteq> 3602879701896397 / 2 ^ 54
   \<and> SRect_dX_fl binary64 (SRect_init_fl binary64 (binary64 (1 / 10)) 0 (binary64 (2 / 10)) 0)
       = 7205759403792795 / 2 ^ 55
   \<and> SRect_dX_fl binary64 (SRect_x_set_fl binary64
         (SRect_init_fl binary64 (binary64 (1 / 10)) 0 (binary64 (2 / 10)) 0) (binary64 (7 / 10)))
       = 1801439850948199 / 2 ^ 53
   \<and> (1801439850948199 / 2 ^ 53 :: real) \<noteq> 7205759403792795 / 2 ^ 55"
proof -
  have a: "SRect_x (SRect_x_set_fl binary64
         (SRect_init_fl binary64 (binary64 (7 / 10)) 0 (binary64 (1 / 10)) 0) (binary64 (1 / 10)))
       = 900719925474099 / 2 ^ 53"
    by (simp only: SRect_setters_fl_read SRect_init_fl_corners doubles_tenths)
  have b: "SRect_dX_fl binary64 (SRect_dX_set_fl binary64
         (SRect_init_fl binary64 (binary64 (1 / 10)) 0 (binary64 (3 / 10)) 0) (binary64 (2 / 10)))
       = 7205759403792795 / 2 ^ 55"
    by (simp only: SRect_setters_fl_read SRect_init_fl_corners doubles_tenths)
  have c0: "SRect_dX_fl binary64 (SRect_init_fl binary64 (binary64 (1 / 10)) 0 (binary64 (2 / 10)) 0)
       = 7205759403792795 / 2 ^ 55"
    by (simp only: SRect_dX_fl_def SRect_init_fl_corners doubles_tenths)
  have c: "SRect_dX_fl binary64 (SRect_x_set_fl binary64
         (SRect_init_fl binary64 (binary64 (1 / 10)) 0 (binary64 (2 / 10)) 0) (binary64 (7 / 10)))
       = 1801439850948199 / 2 ^ 53"
    by (simp only: SRect_setters_fl_read SRect_init_fl_corners doubles_tenths)
  have n: "(900719925474099 / 2 ^ 53 :: real) \<noteq> 3602879701896397 / 2 ^ 55"
    "(7205759403792795 / 2 ^ 55 :: real) \<noteq> 3602879701896397 / 2 ^ 54"
    "(1801439850948199 / 2 ^ 53 :: real) \<noteq> 7205759403792795 / 2 ^ 55"
    by simp_all
  from a b c0 c n doubles_tenths(1,11) show ?thesis
    by blast
qed

lemma Inset_Outset_fl_corners:
  "posMin (Outset_fl fl (Inset_fl fl rc d) d)
     = \<lparr>x = fl (fl (x (posMin rc) + d) - d), y = fl (fl (y (posMin rc) + d) - d)\<rparr>"
  "posMax (Outset_fl fl (Inset_fl fl rc d) d)
     = \<lparr>x = fl (fl (x (posMax rc) - d) + d), y = fl (fl (y (posMax rc) - d) + d)\<rparr>"
  "posMin (Inset_fl fl (Outset_fl fl rc d) d)
     = \<lparr>x = fl (fl (x (posMin rc) - d) + d), y = fl (fl (y (posMin rc) - d) + d)\<rparr>"
  "posMax (Inset_fl fl (Outset_fl fl rc d) d)
     = \<lparr>x = fl (fl (x (posMax rc) + d) - d), y = fl (fl (y (posMax rc) + d) - d)\<rparr>"
  by (simp_all add: Outset_fl_def Inset_fl_def SPoint_Shift_fl_def)

text \<open>
  C6, as the code has it. \<open>Inset(d)\<close> followed by \<open>Outset(d)\<close> adds \<open>d\<close> to each coordinate
  of \<open>posMin\<close> and subtracts it again, and subtracts \<open>d\<close> from each coordinate of
  \<open>posMax\<close> and adds it again; the other order does the reverse. On floats every one
  of these operations is rounded, so a coordinate \<open>c\<close> comes back as
  \<open>fl (fl (c + d) - d)\<close> or \<open>fl (fl (c - d) + d)\<close>. The rectangle is restored exactly
  whenever the first operation on each coordinate is exact, as it always is on \<open>int\<close>
  and \<open>Fraction\<close> coordinates.
\<close>

theorem Inset_Outset_fl:
  "posMin (Outset_fl fl (Inset_fl fl rc d) d)
     = \<lparr>x = fl (fl (x (posMin rc) + d) - d), y = fl (fl (y (posMin rc) + d) - d)\<rparr>
   \<and> posMax (Outset_fl fl (Inset_fl fl rc d) d)
     = \<lparr>x = fl (fl (x (posMax rc) - d) + d), y = fl (fl (y (posMax rc) - d) + d)\<rparr>
   \<and> posMin (Inset_fl fl (Outset_fl fl rc d) d)
     = \<lparr>x = fl (fl (x (posMin rc) - d) + d), y = fl (fl (y (posMin rc) - d) + d)\<rparr>
   \<and> posMax (Inset_fl fl (Outset_fl fl rc d) d)
     = \<lparr>x = fl (fl (x (posMax rc) + d) - d), y = fl (fl (y (posMax rc) + d) - d)\<rparr>
   \<and> (fl (x (posMin rc)) = x (posMin rc) \<and> fl (y (posMin rc)) = y (posMin rc)
        \<and> fl (x (posMax rc)) = x (posMax rc) \<and> fl (y (posMax rc)) = y (posMax rc)
        \<and> fl (x (posMin rc) + d) = x (posMin rc) + d \<and> fl (y (posMin rc) + d) = y (posMin rc) + d
        \<and> fl (x (posMax rc) - d) = x (posMax rc) - d \<and> fl (y (posMax rc) - d) = y (posMax rc) - d
      \<longrightarrow> Outset_fl fl (Inset_fl fl rc d) d = rc)
   \<and> (fl (x (posMin rc)) = x (posMin rc) \<and> fl (y (posMin rc)) = y (posMin rc)
        \<and> fl (x (posMax rc)) = x (posMax rc) \<and> fl (y (posMax rc)) = y (posMax rc)
        \<and> fl (x (posMin rc) - d) = x (posMin rc) - d \<and> fl (y (posMin rc) - d) = y (posMin rc) - d
        \<and> fl (x (posMax rc) + d) = x (posMax rc) + d \<and> fl (y (posMax rc) + d) = y (posMax rc) + d
      \<longrightarrow> Inset_fl fl (Outset_fl fl rc d) d = rc)"
  by (simp add: Outset_fl_def Inset_fl_def SPoint_Shift_fl_def)

theorem Inset_Outset_fl_witness:
  "Outset_fl binary64 (Inset_fl binary64 (SRect_init_fl binary64 1 2 3 4) 5) 5
     = SRect_init_fl binary64 1 2 3 4
   \<and> Inset_fl binary64 (Outset_fl binary64 (SRect_init_fl binary64 1 2 3 4) 5) 5
     = SRect_init_fl binary64 1 2 3 4
   \<and> Inset_fl binary64 (SRect_init_fl binary64 1 2 3 4) 5
     = \<lparr>posMin = \<lparr>x = 6, y = 7\<rparr>, posMax = \<lparr>x = - 1, y = 1\<rparr>\<rparr>"
proof -
  let ?rc = "SRect_init_fl binary64 1 2 3 4"
  have rc: "?rc = \<lparr>posMin = \<lparr>x = 1, y = 2\<rparr>, posMax = \<lparr>x = 4, y = 6\<rparr>\<rparr>"
    by (simp add: SRect_init_fl_def doubles_small)
  have h1: "binary64 (x (posMin ?rc)) = x (posMin ?rc) \<and> binary64 (y (posMin ?rc)) = y (posMin ?rc)
        \<and> binary64 (x (posMax ?rc)) = x (posMax ?rc) \<and> binary64 (y (posMax ?rc)) = y (posMax ?rc)
        \<and> binary64 (x (posMin ?rc) + 5) = x (posMin ?rc) + 5
        \<and> binary64 (y (posMin ?rc) + 5) = y (posMin ?rc) + 5
        \<and> binary64 (x (posMax ?rc) - 5) = x (posMax ?rc) - 5
        \<and> binary64 (y (posMax ?rc) - 5) = y (posMax ?rc) - 5"
    unfolding rc by (simp add: doubles_small)
  have h2: "binary64 (x (posMin ?rc)) = x (posMin ?rc) \<and> binary64 (y (posMin ?rc)) = y (posMin ?rc)
        \<and> binary64 (x (posMax ?rc)) = x (posMax ?rc) \<and> binary64 (y (posMax ?rc)) = y (posMax ?rc)
        \<and> binary64 (x (posMin ?rc) - 5) = x (posMin ?rc) - 5
        \<and> binary64 (y (posMin ?rc) - 5) = y (posMin ?rc) - 5
        \<and> binary64 (x (posMax ?rc) + 5) = x (posMax ?rc) + 5
        \<and> binary64 (y (posMax ?rc) + 5) = y (posMax ?rc) + 5"
    unfolding rc by (simp add: doubles_small)
  note t = Inset_Outset_fl [of binary64 ?rc 5]
  have "Outset_fl binary64 (Inset_fl binary64 ?rc 5) 5 = ?rc"
    using t h1 by blast
  moreover have "Inset_fl binary64 (Outset_fl binary64 ?rc 5) 5 = ?rc"
    using t h2 by blast
  moreover have "Inset_fl binary64 ?rc 5
     = \<lparr>posMin = \<lparr>x = 6, y = 7\<rparr>, posMax = \<lparr>x = - 1, y = 1\<rparr>\<rparr>"
    unfolding rc by (simp add: Inset_fl_def SPoint_Shift_fl_def doubles_small)
  ultimately show ?thesis by blast
qed

text \<open>
  In doubles the pair does not restore the rectangle:
  \<open>SRect(0.1, 0.2, 0.3, 0.4).Inset(0.7).Outset(0.7)\<close> has \<open>posMin.x\<close> 0.09999999999999998,
  not 0.1, and \<open>.Outset(0.7).Inset(0.7)\<close> has \<open>posMax.x\<close> 0.40000000000000013, not 0.4.
\<close>

theorem Inset_Outset_fl_counterexample:
  "x (posMin (SRect_init_fl binary64 (binary64 (1 / 10)) (binary64 (2 / 10)) (binary64 (3 / 10))
        (binary64 (4 / 10)))) = 3602879701896397 / 2 ^ 55
   \<and> x (posMin (Outset_fl binary64 (Inset_fl binary64
        (SRect_init_fl binary64 (binary64 (1 / 10)) (binary64 (2 / 10)) (binary64 (3 / 10))
           (binary64 (4 / 10))) (binary64 (7 / 10))) (binary64 (7 / 10))))
       = 900719925474099 / 2 ^ 53
   \<and> (900719925474099 / 2 ^ 53 :: real) \<noteq> 3602879701896397 / 2 ^ 55
   \<and> x (posMax (SRect_init_fl binary64 (binary64 (1 / 10)) (binary64 (2 / 10)) (binary64 (3 / 10))
        (binary64 (4 / 10)))) = 3602879701896397 / 2 ^ 53
   \<and> x (posMax (Inset_fl binary64 (Outset_fl binary64
        (SRect_init_fl binary64 (binary64 (1 / 10)) (binary64 (2 / 10)) (binary64 (3 / 10))
           (binary64 (4 / 10))) (binary64 (7 / 10))) (binary64 (7 / 10))))
       = 1801439850948199 / 2 ^ 52
   \<and> (1801439850948199 / 2 ^ 52 :: real) \<noteq> 3602879701896397 / 2 ^ 53"
proof -
  let ?rc = "SRect_init_fl binary64 (binary64 (1 / 10)) (binary64 (2 / 10)) (binary64 (3 / 10))
        (binary64 (4 / 10))"
  have a0: "x (posMin ?rc) = 3602879701896397 / 2 ^ 55"
    by (simp only: SRect_init_fl_corners doubles_tenths)
  have a: "x (posMin (Outset_fl binary64 (Inset_fl binary64 ?rc (binary64 (7 / 10)))
        (binary64 (7 / 10)))) = 900719925474099 / 2 ^ 53"
    by (simp only: Inset_Outset_fl_corners SPoint.simps SRect_init_fl_corners doubles_tenths)
  have b0: "x (posMax ?rc) = 3602879701896397 / 2 ^ 53"
    by (simp only: SRect_init_fl_corners doubles_tenths)
  have b: "x (posMax (Inset_fl binary64 (Outset_fl binary64 ?rc (binary64 (7 / 10)))
        (binary64 (7 / 10)))) = 1801439850948199 / 2 ^ 52"
    by (simp only: Inset_Outset_fl_corners SPoint.simps SRect_init_fl_corners doubles_tenths)
  have n: "(900719925474099 / 2 ^ 53 :: real) \<noteq> 3602879701896397 / 2 ^ 55"
    "(1801439850948199 / 2 ^ 52 :: real) \<noteq> 3602879701896397 / 2 ^ 53"
    by simp_all
  from a0 a b0 b n show ?thesis
    by blast
qed

section \<open>Fonts and page formats: results\<close>




text \<open>
  C7. With the format \<open>None\<close> the resolution returns \<open>None\<close> and raises nothing, whatever
  the orientation. With a format, an orientation that lowers to none of \<open>p\<close>,
  \<open>portrait\<close>, \<open>l\<close>, \<open>landscape\<close> never gives a size: the call raises, and what it raises
  is the assertion whenever the format itself resolves.
\<close>

theorem TuDxDyFromOrientationFmt_failures:
  "TuDxDyFromOrientationFmt formats pdf so None = Inr None
   \<and> (lower so \<notin> set [''p'', ''portrait'', ''l'', ''landscape''] \<longrightarrow>
        (\<exists>e. TuDxDyFromOrientationFmt formats pdf so (Some f) = Inl e)
        \<and> (\<forall>wh. get_page_format formats f (k pdf) = Inr wh \<longrightarrow>
              TuDxDyFromOrientationFmt formats pdf so (Some f) = Inl AssertionError))"
  by (auto simp add: TuDxDyFromOrientationFmt_def Let_def split: sum.splits prod.splits)

theorem TuDxDyFromOrientationFmt_failures_witness:
  "TuDxDyFromOrientationFmt (PAGE_FORMATS Map.empty) CPdf_init ''sideways'' None = Inr None
   \<and> TuDxDyFromOrientationFmt (PAGE_FORMATS Map.empty) CPdf_init ''sideways''
        (Some (FmtName ''a4'')) = Inl AssertionError"
proof -
  have o: "lower ''sideways'' \<notin> set [''p'', ''portrait'', ''l'', ''landscape'']"
    by (simp add: lower_def lower_char_def)
  have f: "get_page_format (PAGE_FORMATS Map.empty) (FmtName ''a4'') (k CPdf_init)
             = Inr (595.28, 841.89)"
    by (simp add: get_page_format_def PAGE_FORMATS_def s_mpStrFormatWH_def lower_def
        lower_char_def)
  from TuDxDyFromOrientationFmt_failures
         [of "PAGE_FORMATS Map.empty" CPdf_init "''sideways''" "FmtName ''a4''"] o f
  show ?thesis by blast
qed

text \<open>
  C8. For a format that resolves to the size \<open>(w, h)\<close> in points and a scale \<open>k\<close>, a
  portrait orientation gives \<open>(w / k, h / k)\<close> and a landscape orientation gives the
  swap \<open>(h / k, w / k)\<close>. For the format \<open>a4\<close> of the table and the scale 72 of a \<open>CPdf\<close>,
  portrait is (595.28 / 72, 841.89 / 72), within 0.0001 of (8.2678, 11.6929), and
  landscape is its swap.
\<close>

theorem TuDxDyFromOrientationFmt_sizes:
  "(get_page_format formats f (k pdf) = Inr (w, h) \<and> k pdf \<noteq> 0 \<longrightarrow>
      (lower so \<in> set [''p'', ''portrait''] \<longrightarrow>
         TuDxDyFromOrientationFmt formats pdf so (Some f) = Inr (Some (w / k pdf, h / k pdf)))
      \<and> (lower so \<in> set [''l'', ''landscape''] \<longrightarrow>
         TuDxDyFromOrientationFmt formats pdf so (Some f) = Inr (Some (h / k pdf, w / k pdf))))
   \<and> k CPdf_init = 72
   \<and> TuDxDyFromOrientationFmt (PAGE_FORMATS base) CPdf_init ''portrait'' (Some (FmtName ''a4''))
       = Inr (Some (595.28 / 72, 841.89 / 72))
   \<and> TuDxDyFromOrientationFmt (PAGE_FORMATS base) CPdf_init ''landscape'' (Some (FmtName ''a4''))
       = Inr (Some (841.89 / 72, 595.28 / 72))
   \<and> \<bar>595.28 / 72 - 8.2678\<bar> < (0.0001 :: real) \<and> \<bar>841.89 / 72 - 11.6929\<bar> < (0.0001 :: real)"
proof -
  have "get_page_format formats f (k pdf) = Inr (w, h) \<and> k pdf \<noteq> 0 \<longrightarrow>
      (lower so \<in> set [''p'', ''portrait''] \<longrightarrow>
         TuDxDyFromOrientationFmt formats pdf so (Some f) = Inr (Some (w / k pdf, h / k pdf)))
      \<and> (lower so \<in> set [''l'', ''landscape''] \<longrightarrow>
         TuDxDyFromOrientationFmt formats pdf so (Some f) = Inr (Some (h / k pdf, w / k pdf)))"
    by (auto simp add: TuDxDyFromOrientationFmt_def Let_def)
  moreover have "k CPdf_init = 72"
    by (simp add: CPdf_init_def)
  moreover have
    "TuDxDyFromOrientationFmt (PAGE_FORMATS base) CPdf_init ''portrait'' (Some (FmtName ''a4''))
       = Inr (Some (595.28 / 72, 841.89 / 72))"
    by (simp add: TuDxDyFromOrientationFmt_def get_page_format_def PAGE_FORMATS_def
        s_mpStrFormatWH_def lower_def lower_char_def CPdf_init_def)
  moreover have
    "TuDxDyFromOrientationFmt (PAGE_FORMATS base) CPdf_init ''landscape'' (Some (FmtName ''a4''))
       = Inr (Some (841.89 / 72, 595.28 / 72))"
    by (simp add: TuDxDyFromOrientationFmt_def get_page_format_def PAGE_FORMATS_def
        s_mpStrFormatWH_def lower_def lower_char_def CPdf_init_def)
  moreover have "\<bar>595.28 / 72 - 8.2678\<bar> < (0.0001 :: real)"
    and "\<bar>841.89 / 72 - 11.6929\<bar> < (0.0001 :: real)"
    by simp_all
  ultimately show ?thesis by blast
qed

theorem TuDxDyFromOrientationFmt_sizes_witness:
  "TuDxDyFromOrientationFmt (PAGE_FORMATS Map.empty) CPdf_init ''P'' (Some (FmtSize 8.5 11))
     = Inr (Some (8.5, 11))
   \<and> TuDxDyFromOrientationFmt (PAGE_FORMATS Map.empty) CPdf_init ''Landscape''
       (Some (FmtName ''Letter'')) = Inr (Some (11, 8.5))"
proof -
  have k: "k CPdf_init \<noteq> 0"
    by (simp add: CPdf_init_def)
  have f1: "get_page_format (PAGE_FORMATS Map.empty) (FmtSize 8.5 11) (k CPdf_init)
              = Inr (612, 792)"
    by (simp add: get_page_format_def CPdf_init_def)
  have f2: "get_page_format (PAGE_FORMATS Map.empty) (FmtName ''Letter'') (k CPdf_init)
              = Inr (612, 792)"
    by (simp add: get_page_format_def PAGE_FORMATS_def s_mpStrFormatWH_def lower_def
        lower_char_def)
  have o1: "lower ''P'' \<in> set [''p'', ''portrait'']"
    and o2: "lower ''Landscape'' \<in> set [''l'', ''landscape'']"
    by (simp_all add: lower_def lower_char_def)
  have "TuDxDyFromOrientationFmt (PAGE_FORMATS Map.empty) CPdf_init ''P'' (Some (FmtSize 8.5 11))
     = Inr (Some (612 / k CPdf_init, 792 / k CPdf_init))"
    using TuDxDyFromOrientationFmt_sizes
            [of "PAGE_FORMATS Map.empty" "FmtSize 8.5 11" CPdf_init 612 792 "''P''"] k f1 o1
    by blast
  moreover have "TuDxDyFromOrientationFmt (PAGE_FORMATS Map.empty) CPdf_init ''Landscape''
       (Some (FmtName ''Letter'')) = Inr (Some (792 / k CPdf_init, 612 / k CPdf_init))"
    using TuDxDyFromOrientationFmt_sizes
            [of "PAGE_FORMATS Map.empty" "FmtName ''Letter''" CPdf_init 612 792 "''Landscape''"]
          k f2 o2
    by blast
  ultimately show ?thesis
    by (simp add: CPdf_init_def)
qed

section \<open>The one-line text box: results\<close>

text \<open>
  C5. A box constructed with the explicit margin 0.0 uses the computed default margin
  \<open>max(0, (rect.dY - capHeight) / 2)\<close>, not 0: the constructor gives the same box as with
  the margin omitted. A margin \<open>m\<close> given by the caller is the margin of the box exactly
  when \<open>m\<close> is not zero.
\<close>

theorem COneLineTextBox_zero_margin_is_default:
  assumes "fonts pdf (Str fk) = Some capRaw"
  shows "COneLineTextBox_init pdf rc fk d (Some 0) = COneLineTextBox_init pdf rc fk d None
         \<and> (\<exists>box. COneLineTextBox_init pdf rc fk d (Some 0) = Inr box
               \<and> oltb_dYCap box = capRaw * d / 1000
               \<and> dSMargin box = max 0 ((SRect_dY rc - oltb_dYCap box) / 2)
               \<and> rectMargin box = Inset rc (dSMargin box))
         \<and> (m \<noteq> 0 \<longrightarrow>
              (\<exists>box. COneLineTextBox_init pdf rc fk d (Some m) = Inr box
                 \<and> dSMargin box = m \<and> rectMargin box = Inset rc m))"
  using assms
  by (simp add: COneLineTextBox_init_def CFontInstance_init_def py_or_def Let_def Copy_plain)

theorem COneLineTextBox_zero_margin_is_default_witness:
  "\<exists>box. COneLineTextBox_init (CPdf_init\<lparr>fonts := [''helvetica'' \<mapsto> 700]\<rparr>)
            (SRect_init 0 0 10 2) \<lparr>strFont = ''Helvetica'', strStyle = []\<rparr> 1 (Some 0) = Inr box
         \<and> dSMargin box = 13 / 20
         \<and> rectMargin box = \<lparr>posMin = \<lparr>x = 13 / 20, y = 13 / 20\<rparr>,
                              posMax = \<lparr>x = 187 / 20, y = 27 / 20\<rparr>\<rparr>"
proof -
  let ?pdf = "CPdf_init\<lparr>fonts := [''helvetica'' \<mapsto> 700]\<rparr>"
  let ?fk = "\<lparr>strFont = ''Helvetica'', strStyle = []\<rparr>"
  have reg: "fonts ?pdf (Str ?fk) = Some 700"
    by (simp add: Str_def lower_def lower_char_def)
  from COneLineTextBox_zero_margin_is_default [OF reg, of "SRect_init 0 0 10 2" 1 1]
  obtain box where
    b: "COneLineTextBox_init ?pdf (SRect_init 0 0 10 2) ?fk 1 (Some 0) = Inr box"
      "oltb_dYCap box = 700 * 1 / 1000"
      "dSMargin box = max 0 ((SRect_dY (SRect_init 0 0 10 2) - oltb_dYCap box) / 2)"
      "rectMargin box = Inset (SRect_init 0 0 10 2) (dSMargin box)"
    by blast
  have m: "dSMargin box = 13 / 20"
    using b(2,3) by (simp add: SRect_dY_def SRect_init_def)
  have "rectMargin box = \<lparr>posMin = \<lparr>x = 13 / 20, y = 13 / 20\<rparr>,
                           posMax = \<lparr>x = 187 / 20, y = 27 / 20\<rparr>\<rparr>"
    using b(4) m by (simp add: Inset_def SRect_init_def SPoint_Shift_def)
  with b(1) m show ?thesis by blast
qed

subsection \<open>Drawing a text\<close>

lemma FHasAnyRtl_iff:
  "FHasAnyRtl ext s \<longleftrightarrow> (\<exists>ch\<in>set s. bidirectional ext ch \<in> set [''AL'', ''R''])"
  by (induction s) (auto simp add: Let_def)

lemma drawn_texts_append: "drawn_texts (cs @ ds) = drawn_texts cs @ drawn_texts ds"
  by (induction cs rule: drawn_texts.induct) simp_all

lemma font_calls_append: "font_calls (cs @ ds) = font_calls cs @ font_calls ds"
  by (induction cs rule: font_calls.induct) simp_all

lemma place_calls:
  "\<exists>cs. calls (snd (RectDrawText_place pdf box T w col jh jv haloa)) = calls pdf @ cs
     \<and> drawn_texts cs = (case haloa of None \<Rightarrow> [T] | Some h \<Rightarrow> [T, T])
     \<and> font_calls cs = []"
  by (cases haloa) (simp_all add: RectDrawText_place_def Let_def pdf_do_def)

lemma fit_keep:
  "\<exists>w pdf'. RectDrawText_fit ext pdf box T False = Inr (w, box, pdf')"
  by (simp add: RectDrawText_fit_def Let_def get_string_width_def)

lemma fit_calls:
  assumes "RectDrawText_fit ext pdf box T fs = Inr (w, box', pdf')"
  shows "\<exists>cs. calls pdf' = calls pdf @ cs \<and> drawn_texts cs = []"
  using assms
  by (auto simp add: RectDrawText_fit_def RectDrawText_shrink_def Let_def get_string_width_def
      set_font_def CFontInstance_init_def split: if_splits option.splits)

lemma RectDrawText_unfold:
  "RectDrawText ext pdf box s col jh jv fs haloa =
     (case RectDrawText_fit ext pdf box (RectDrawText_prepare ext s) fs of
        Inl e \<Rightarrow> Inl e
      | Inr t \<Rightarrow>
          Inr (fst (RectDrawText_place (snd (snd t)) (fst (snd t)) (RectDrawText_prepare ext s)
                     (fst t) col jh jv haloa),
               fst (snd t),
               snd (RectDrawText_place (snd (snd t)) (fst (snd t)) (RectDrawText_prepare ext s)
                     (fst t) col jh jv haloa)))"
  by (simp add: RectDrawText_def Let_def case_prod_beta split: sum.splits)

lemma box_example_constructed:
  "COneLineTextBox_init pdf_example (SRect_init 0 0 2 1) fontkey_example 1 (Some (1 / 4))
     = Inr box_example"
  by (simp add: COneLineTextBox_init_def CFontInstance_init_def pdf_example_def
      fontkey_example_def box_example_def CPdf_init_def Str_def lower_def lower_char_def
      py_or_def Copy_plain Inset_def SRect_init_def SPoint_Shift_def Let_def SRect_dY_def)

text \<open>
  C9. \<open>RectDrawText\<close> draws the string as it is given when no character of it has the
  bidirectional category R or AL, and draws the reshaped, reordered and stripped string
  when some character has: every text the call draws (one, or two with a halo) is that
  string. A call that does not shrink always returns.
\<close>

theorem RectDrawText_draws_prepared_text:
  "(\<exists>res. RectDrawText ext pdf box s col jh jv False haloa = Inr res)
   \<and> (\<forall>rcOut box' pdf'.
        RectDrawText ext pdf box s col jh jv fs haloa = Inr (rcOut, box', pdf') \<longrightarrow>
        (\<exists>cs. calls pdf' = calls pdf @ cs
           \<and> drawn_texts cs =
               (let strDrawn =
                  (if \<exists>ch\<in>set s. bidirectional ext ch \<in> set [''AL'', ''R'']
                   then translate_RemoveControl ext (get_display ext (reshape ext s))
                   else s)
                in case haloa of None \<Rightarrow> [strDrawn] | Some h \<Rightarrow> [strDrawn, strDrawn])))"
proof (intro conjI allI impI)
  from fit_keep [of ext pdf box "RectDrawText_prepare ext s"]
  show "\<exists>res. RectDrawText ext pdf box s col jh jv False haloa = Inr res"
    by (auto simp add: RectDrawText_unfold)
next
  fix rcOut box' pdf'
  assume res: "RectDrawText ext pdf box s col jh jv fs haloa = Inr (rcOut, box', pdf')"
  let ?T = "RectDrawText_prepare ext s"
  from res obtain w3 pdf3 where
    mid: "RectDrawText_fit ext pdf box ?T fs = Inr (w3, box', pdf3)"
    and out: "pdf' = snd (RectDrawText_place pdf3 box' ?T w3 col jh jv haloa)"
    by (auto simp add: RectDrawText_unfold split: sum.splits)
  from fit_calls [OF mid] obtain ds where
    ds: "calls pdf3 = calls pdf @ ds" "drawn_texts ds = []"
    by blast
  from place_calls [of pdf3 box' ?T w3 col jh jv haloa] out
  obtain cs where cs: "calls pdf' = calls pdf3 @ cs"
    "drawn_texts cs = (case haloa of None \<Rightarrow> [?T] | Some h \<Rightarrow> [?T, ?T])"
    by blast
  have T: "?T = (if \<exists>ch\<in>set s. bidirectional ext ch \<in> set [''AL'', ''R'']
                   then translate_RemoveControl ext (get_display ext (reshape ext s))
                   else s)"
    by (simp only: RectDrawText_prepare_def FHasAnyRtl_iff)
  from ds cs have "calls pdf' = calls pdf @ (ds @ cs)"
    and "drawn_texts (ds @ cs) = (case haloa of None \<Rightarrow> [?T] | Some h \<Rightarrow> [?T, ?T])"
    by (simp_all add: drawn_texts_append)
  then show "\<exists>cs. calls pdf' = calls pdf @ cs
           \<and> drawn_texts cs =
               (let strDrawn =
                  (if \<exists>ch\<in>set s. bidirectional ext ch \<in> set [''AL'', ''R'']
                   then translate_RemoveControl ext (get_display ext (reshape ext s))
                   else s)
                in case haloa of None \<Rightarrow> [strDrawn] | Some h \<Rightarrow> [strDrawn, strDrawn])"
    unfolding Let_def T [symmetric] by blast
qed


theorem RectDrawText_draws_prepared_text_witness:
  "(\<exists>rcOut box' pdf'.
      RectDrawText extern_proportional pdf_example box_example text_example color_example
        Left Middle False None = Inr (rcOut, box', pdf')
      \<and> drawn_texts (calls pdf') = [text_example])
   \<and> (\<exists>rcOut box' pdf'.
      RectDrawText extern_proportional pdf_example box_example [1488, 8207, 1489] color_example
        Left Middle False None = Inr (rcOut, box', pdf')
      \<and> drawn_texts (calls pdf') = [[1489, 1488]])"
proof -
  have c0: "calls pdf_example = []"
    by (simp add: pdf_example_def CPdf_init_def)
  have ltr: "(if \<exists>ch\<in>set text_example. bidirectional extern_proportional ch \<in> set [''AL'', ''R'']
       then translate_RemoveControl extern_proportional
              (get_display extern_proportional (reshape extern_proportional text_example))
       else text_example) = text_example"
    by (simp add: text_example_def extern_proportional_def)
  have rtl: "(if \<exists>ch\<in>set [1488, 8207, 1489].
                  bidirectional extern_proportional ch \<in> set [''AL'', ''R'']
       then translate_RemoveControl extern_proportional
              (get_display extern_proportional (reshape extern_proportional [1488, 8207, 1489]))
       else [1488, 8207, 1489]) = [1489, 1488]"
    by (simp add: extern_proportional_def translate_RemoveControl_def)
  have one: "\<exists>rcOut box' pdf'.
      RectDrawText extern_proportional pdf_example box_example text_example color_example
        Left Middle False None = Inr (rcOut, box', pdf')
      \<and> drawn_texts (calls pdf') = [text_example]"
    using RectDrawText_draws_prepared_text
      [where ext = extern_proportional and pdf = pdf_example and box = box_example
         and s = text_example and col = color_example and jh = Left and jv = Middle
         and fs = False and haloa = None]
    unfolding ltr Let_def c0 by fastforce
  have two: "\<exists>rcOut box' pdf'.
      RectDrawText extern_proportional pdf_example box_example [1488, 8207, 1489] color_example
        Left Middle False None = Inr (rcOut, box', pdf')
      \<and> drawn_texts (calls pdf') = [[1489, 1488]]"
    using RectDrawText_draws_prepared_text
      [where ext = extern_proportional and pdf = pdf_example and box = box_example
         and s = "[1488, 8207, 1489]" and col = color_example and jh = Left and jv = Middle
         and fs = False and haloa = None]
    unfolding rtl Let_def c0 by fastforce
  from one two show ?thesis by blast
qed

text \<open>
  The division \<open>rectMargin.dX / dXText\<close> of the shrinking step has no guard: an empty
  text measures 0, which is over a negative usable width (a margin wider than half
  the box), and the call raises.
\<close>

lemma RectDrawText_empty_text_negative_width:
  "COneLineTextBox_init pdf_example (SRect_init 0 0 2 1) fontkey_example 1 (Some 2)
     = Inr (box_example\<lparr>dSMargin := 2,
              rectMargin := \<lparr>posMin = \<lparr>x = 2, y = 2\<rparr>, posMax = \<lparr>x = 0, y = - 1\<rparr>\<rparr>\<rparr>)
   \<and> RectDrawText extern_proportional pdf_example
         (box_example\<lparr>dSMargin := 2,
            rectMargin := \<lparr>posMin = \<lparr>x = 2, y = 2\<rparr>, posMax = \<lparr>x = 0, y = - 1\<rparr>\<rparr>\<rparr>)
         [] color_example Left Middle True None
     = Inl ZeroDivisionError"
  by (simp add: COneLineTextBox_init_def CFontInstance_init_def pdf_example_def
      fontkey_example_def box_example_def CPdf_init_def Str_def lower_def lower_char_def
      py_or_def Copy_plain Inset_def SRect_init_def SPoint_Shift_def Let_def SRect_dY_def
      RectDrawText_def RectDrawText_prepare_def RectDrawText_fit_def RectDrawText_shrink_def
      get_string_width_def set_font_def extern_proportional_def SRect_dX_def)

section \<open>Colors: results\<close>

text \<open>
  \<open>hsv_to_rgb\<close> in the sector \<open>i\<close> of the hue circle, at the fraction \<open>f\<close> of the sector.
\<close>

lemma py_int_nonneg: "0 \<le> z \<Longrightarrow> py_int z = \<lfloor>z\<rfloor>"
  by (simp add: py_int_def)

lemma hsv_to_rgb_sector:
  assumes "s \<noteq> 0" and "h * 6 = real_of_int i + f" and "0 \<le> f" and "f < 1"
    and "0 \<le> i" and "i < 6"
  shows "hsv_to_rgb h s v =
     (if i = 0 then (v, v * (1 - s * (1 - f)), v * (1 - s))
      else if i = 1 then (v * (1 - s * f), v, v * (1 - s))
      else if i = 2 then (v * (1 - s), v, v * (1 - s * (1 - f)))
      else if i = 3 then (v * (1 - s), v * (1 - s * f), v)
      else if i = 4 then (v * (1 - s * (1 - f)), v * (1 - s), v)
      else (v, v * (1 - s), v * (1 - s * f)))"
proof -
  have fl: "\<lfloor>h * 6\<rfloor> = i"
    using assms(2,3,4) by (simp add: floor_unique)
  have "0 \<le> h * 6"
    using assms(2,3,5) by simp
  then have i: "py_int (h * 6) = i"
    by (simp add: py_int_nonneg fl)
  have f: "h * 6 - real_of_int i = f"
    using assms(2) by simp
  have m: "i mod 6 = i"
    using assms(5,6) by simp
  show ?thesis
    unfolding hsv_to_rgb_def Let_def i f m using assms(1) by simp
qed

lemma frac6_nonneg: "0 \<le> z \<Longrightarrow> z < 6 \<Longrightarrow> frac (z / 6) * 6 = z"
  by (simp add: frac_eq [THEN iffD2])

lemma frac6_neg: "- 6 \<le> z \<Longrightarrow> z < 0 \<Longrightarrow> frac (z / 6) * 6 = z + 6"
proof -
  assume a: "- 6 \<le> z" "z < 0"
  have "\<lfloor>z / 6\<rfloor> = - 1"
    using a by (simp add: floor_unique)
  then show ?thesis
    by (simp add: frac_def)
qed


lemma hsv_to_rgb_channels:
  assumes "0 < M" and "m < M" and "h * 6 = real_of_int i + f" and "0 \<le> f" and "f < 1"
    and "0 \<le> i" and "i < 6"
  shows "hsv_to_rgb h ((M - m) / M) M =
     (if i = 0 then (M, m + (M - m) * f, m)
      else if i = 1 then (M - (M - m) * f, M, m)
      else if i = 2 then (m, M, m + (M - m) * f)
      else if i = 3 then (m, M - (M - m) * f, M)
      else if i = 4 then (m + (M - m) * f, m, M)
      else (M, m, M - (M - m) * f))"
proof -
  have s: "(M - m) / M \<noteq> 0"
    using assms(1,2) by simp
  have p: "M * (1 - (M - m) / M) = m"
    using assms(1) by (simp add: field_simps)
  have q: "M * (1 - (M - m) / M * f) = M - (M - m) * f"
    using assms(1) by (simp add: field_simps)
  have t: "M * (1 - (M - m) / M * (1 - f)) = m + (M - m) * f"
    using assms(1) by (simp add: field_simps)
  show ?thesis
    unfolding hsv_to_rgb_sector [OF s assms(3-7)] p q t ..
qed

text \<open>
  The eight ways three channels that are not all equal can be ordered: which one is
  the largest (the first in the order red, green, blue) and which one is the smallest.
\<close>

lemma sectors:
  fixes cr cg cb :: real
  assumes "m < M" and "M = max (max cr cg) cb" and "m = min (min cr cg) cb"
  shows "(cr = M \<and> m = cb \<and> cg < M) \<or> (cr = M \<and> m = cb \<and> cg = M)
       \<or> (cr = M \<and> m = cg \<and> cg < cb)
       \<or> (cr < M \<and> cg = M \<and> m = cr \<and> cb < M) \<or> (cr < M \<and> cg = M \<and> m = cr \<and> cb = M)
       \<or> (cr < M \<and> cg = M \<and> m = cb \<and> cb < cr)
       \<or> (cr < M \<and> cg < M \<and> cb = M \<and> m = cg)
       \<or> (cr < M \<and> cg < M \<and> cb = M \<and> m = cr \<and> cr < cg)"
  using assms unfolding max_def min_def
  by (cases "cr \<le> cg"; cases "cg \<le> cb"; cases "cr \<le> cb"; cases "cr = cg"; cases "cg = cb";
      cases "cr = cb"; simp; linarith?)

text \<open>
  Converting to hue, saturation and value and back gives the channels again, and the
  saturation of non-negative channels lies between 0 and 1.
\<close>

lemma hsv_roundtrip:
  assumes "0 \<le> cr" and "0 \<le> cg" and "0 \<le> cb"
  shows "\<exists>h s v. rgb_to_hsv cr cg cb = Inr (h, s, v) \<and> hsv_to_rgb h s v = (cr, cg, cb)
           \<and> v = max (max cr cg) cb \<and> 0 \<le> s \<and> s \<le> 1"
proof (cases "min (min cr cg) cb = max (max cr cg) cb")
  case True
  then have "cr = cg" and "cg = cb"
    by (auto simp add: min_def max_def split: if_splits)
  then show ?thesis
    by (simp add: rgb_to_hsv_def hsv_to_rgb_def)
next
  case False
  define M where "M = max (max cr cg) cb"
  define m where "m = min (min cr cg) cb"
  have mM: "m < M" and M0: "0 < M" and m0: "0 \<le> m"
    using False assms unfolding M_def m_def by (auto simp add: min_def max_def split: if_splits)
  define h0 where "h0 = (if cr = M then (M - cb) / (M - m) - (M - cg) / (M - m)
                     else if cg = M then 2 + (M - cr) / (M - m) - (M - cb) / (M - m)
                     else 4 + (M - cg) / (M - m) - (M - cr) / (M - m))"
  have hsv: "rgb_to_hsv cr cg cb = Inr (frac (h0 / 6), (M - m) / M, M)"
    using False M0 unfolding rgb_to_hsv_def Let_def M_def [symmetric] m_def [symmetric] h0_def
    by simp
  have s1: "0 \<le> (M - m) / M" and s2: "(M - m) / M \<le> 1"
    using mM M0 m0 by (simp_all add: field_simps)
  have le: "cr \<le> M" "cg \<le> M" "cb \<le> M" "m \<le> cr" "m \<le> cg" "m \<le> cb"
    unfolding M_def m_def by simp_all
  have D: "0 < M - m"
    using mM by simp
  note chan = hsv_to_rgb_channels [OF M0 mM]
  from sectors [OF mM M_def m_def]
  have "hsv_to_rgb (frac (h0 / 6)) ((M - m) / M) M = (cr, cg, cb)"
  proof (elim disjE conjE)
    assume r0: "cr = M" "m = cb" "cg < M"
    define f where "f = (cg - cb) / (M - cb)"
    have h0: "h0 = f"
      using r0 D by (simp add: h0_def f_def field_simps)
    have f: "0 \<le> f" "f < 1"
      using r0 D le by (simp_all add: f_def)
    have "frac (h0 / 6) * 6 = real_of_int 0 + f"
      using f by (simp add: h0 frac6_nonneg)
    from chan [OF this f] have "hsv_to_rgb (frac (h0 / 6)) ((M - m) / M) M
        = (M, m + (M - m) * f, m)"
      by simp
    moreover have "(M - m) * f = cg - cb"
      using r0 D by (simp add: f_def)
    ultimately show ?thesis
      using r0 by simp
  next
    assume r1: "cr = M" "m = cb" "cg = M"
    have h0: "h0 = 1"
      using r1 D by (simp add: h0_def)
    have "frac (h0 / 6) * 6 = real_of_int 1 + 0"
      by (simp add: h0 frac6_nonneg)
    from chan [OF this] have "hsv_to_rgb (frac (h0 / 6)) ((M - m) / M) M = (M, M, m)"
      by simp
    then show ?thesis
      using r1 by simp
  next
    assume r5: "cr = M" "m = cg" "cg < cb"
    define f where "f = (M - cb) / (M - cg)"
    have h0: "h0 = f - 1"
      using r5 D by (simp add: h0_def f_def field_simps)
    have f: "0 \<le> f" "f < 1"
      using r5 D le by (simp_all add: f_def)
    have "frac (h0 / 6) * 6 = real_of_int 5 + f"
      using f by (simp add: h0 frac6_neg)
    from chan [OF this f] have "hsv_to_rgb (frac (h0 / 6)) ((M - m) / M) M
        = (M, m, M - (M - m) * f)"
      by simp
    moreover have "(M - m) * f = M - cb"
      using r5 D by (simp add: f_def)
    ultimately show ?thesis
      using r5 by simp
  next
    assume g2: "cr < M" "cg = M" "m = cr" "cb < M"
    define f where "f = (cb - cr) / (M - cr)"
    have h0: "h0 = 2 + f"
      using g2 D by (simp add: h0_def f_def field_simps)
    have f: "0 \<le> f" "f < 1"
      using g2 D le by (simp_all add: f_def)
    have "frac (h0 / 6) * 6 = real_of_int 2 + f"
      using f by (simp add: h0 frac6_nonneg)
    from chan [OF this f] have "hsv_to_rgb (frac (h0 / 6)) ((M - m) / M) M
        = (m, M, m + (M - m) * f)"
      by simp
    moreover have "(M - m) * f = cb - cr"
      using g2 D by (simp add: f_def)
    ultimately show ?thesis
      using g2 by simp
  next
    assume g3: "cr < M" "cg = M" "m = cr" "cb = M"
    have h0: "h0 = 3"
      using g3 D by (simp add: h0_def)
    have "frac (h0 / 6) * 6 = real_of_int 3 + 0"
      by (simp add: h0 frac6_nonneg)
    from chan [OF this] have "hsv_to_rgb (frac (h0 / 6)) ((M - m) / M) M = (m, M, M)"
      by simp
    then show ?thesis
      using g3 by simp
  next
    assume g1: "cr < M" "cg = M" "m = cb" "cb < cr"
    define f where "f = (M - cr) / (M - cb)"
    have h0: "h0 = 1 + f"
      using g1 D by (simp add: h0_def f_def field_simps)
    have f: "0 \<le> f" "f < 1"
      using g1 D le by (simp_all add: f_def)
    have "frac (h0 / 6) * 6 = real_of_int 1 + f"
      using f by (simp add: h0 frac6_nonneg)
    from chan [OF this f] have "hsv_to_rgb (frac (h0 / 6)) ((M - m) / M) M
        = (M - (M - m) * f, M, m)"
      by simp
    moreover have "(M - m) * f = M - cr"
      using g1 D by (simp add: f_def)
    ultimately show ?thesis
      using g1 by simp
  next
    assume b4: "cr < M" "cg < M" "cb = M" "m = cg"
    define f where "f = (cr - cg) / (M - cg)"
    have h0: "h0 = 4 + f"
      using b4 D by (simp add: h0_def f_def field_simps)
    have f: "0 \<le> f" "f < 1"
      using b4 D le by (simp_all add: f_def)
    have "frac (h0 / 6) * 6 = real_of_int 4 + f"
      using f by (simp add: h0 frac6_nonneg)
    from chan [OF this f] have "hsv_to_rgb (frac (h0 / 6)) ((M - m) / M) M
        = (m + (M - m) * f, m, M)"
      by simp
    moreover have "(M - m) * f = cr - cg"
      using b4 D by (simp add: f_def)
    ultimately show ?thesis
      using b4 by simp
  next
    assume b3: "cr < M" "cg < M" "cb = M" "m = cr" "cr < cg"
    define f where "f = (M - cg) / (M - cr)"
    have h0: "h0 = 3 + f"
      using b3 D by (simp add: h0_def f_def field_simps)
    have f: "0 \<le> f" "f < 1"
      using b3 D le by (simp_all add: f_def)
    have "frac (h0 / 6) * 6 = real_of_int 3 + f"
      using f by (simp add: h0 frac6_nonneg)
    from chan [OF this f] have "hsv_to_rgb (frac (h0 / 6)) ((M - m) / M) M
        = (m, M - (M - m) * f, M)"
      by simp
    moreover have "(M - m) * f = M - cg"
      using b3 D by (simp add: f_def)
    ultimately show ?thesis
      using b3 by simp
  qed
  with hsv s1 s2 show ?thesis
    by (simp add: M_def)
qed


lemma py_round_of_int: "py_round (real_of_int n) = n"
  by (simp add: py_round_def)

text \<open>
  C10. For every color, with channels in 0..255, \<open>ColorResaturate\<close> with \<open>rS = 1\<close>,
  \<open>dS = 0\<close>, \<open>rV = 1\<close>, \<open>dV = 0\<close> returns the same color: each channel is the nearest
  integer to a number that is the channel itself, and the alpha channel is kept.
  (Exact arithmetic.)
\<close>

theorem ColorResaturate_identity:
  assumes "0 \<le> r c" and "r c \<le> 255" and "0 \<le> g c" and "g c \<le> 255"
    and "0 \<le> b c" and "b c \<le> 255"
  shows "ColorResaturate c 1 0 1 0 = Inr c"
proof -
  let ?cr = "real_of_int (r c) / 255" and ?cg = "real_of_int (g c) / 255"
    and ?cb = "real_of_int (b c) / 255"
  have lo: "0 \<le> ?cr" "0 \<le> ?cg" "0 \<le> ?cb"
    using assms by simp_all
  have hi: "?cr \<le> 1" "?cg \<le> 1" "?cb \<le> 1"
    using assms by simp_all
  from hsv_roundtrip [OF lo] obtain h s v where
    hsv: "rgb_to_hsv ?cr ?cg ?cb = Inr (h, s, v)"
    and rgb: "hsv_to_rgb h s v = (?cr, ?cg, ?cb)"
    and v: "v = max (max ?cr ?cg) ?cb" and s: "0 \<le> s" "s \<le> 1"
    by blast
  have v01: "0 \<le> v" "v \<le> 1"
    using lo hi unfolding v by simp_all
  have clamp: "min 1 (max 0 (s * 1 + 0)) = s" "min 1 (max 0 (v * 1 + 0)) = v"
    using s v01 by simp_all
  have rnd: "py_round (?cr * 255) = r c" "py_round (?cg * 255) = g c"
    "py_round (?cb * 255) = b c"
    by (simp_all add: py_round_of_int)
  have "ColorResaturate c 1 0 1 0 = Inr \<lparr>r = r c, g = g c, b = b c, a = a c\<rparr>"
    unfolding ColorResaturate_def hsv sum.case prod.case Let_def clamp rgb rnd ..
  then show ?thesis by simp
qed

theorem ColorResaturate_identity_witness:
  "ColorResaturate \<lparr>r = 200, g = 100, b = 50, a = 128\<rparr> 1 0 1 0
     = Inr \<lparr>r = 200, g = 100, b = 50, a = 128\<rparr>"
  using ColorResaturate_identity [of "\<lparr>r = 200, g = 100, b = 50, a = 128\<rparr>"]
  by simp

end
